theory Spec2Isabelle
  imports Main
begin

section \<open>Values, errors and the file system of the runtime\<close>

text \<open>
  The client is TypeScript running on Node. Values that cross its interfaces (tokens,
  request payloads, response bodies) are JavaScript values. Numbers are restricted to
  integers (identifiers, counts, expiry times); \<open>NaN\<close> and fractions are not represented.
\<close>

datatype jsval =
    JUndefined
  | JNull
  | JBool bool
  | JNum int
  | JStr string
  | JBuffer string
  | JArr "jsval list"
  | JObj "(string \<times> jsval) list"

text \<open>The conversion to boolean that \<open>!x\<close>, \<open>x && y\<close> and \<open>x || y\<close> apply.\<close>

fun truthy :: "jsval \<Rightarrow> bool" where
  "truthy JUndefined = False"
| "truthy JNull = False"
| "truthy (JBool b) = b"
| "truthy (JNum n) = (n \<noteq> 0)"
| "truthy (JStr s) = (s \<noteq> [])"
| "truthy (JBuffer b) = True"
| "truthy (JArr xs) = True"
| "truthy (JObj kvs) = True"

text \<open>
  A path is the list of its components below the root: what the string passed by the
  caller resolves to. \<open>path.join(dir, name)\<close>, for the plain entry names the client uses,
  is the entry \<open>name\<close> of \<open>dir\<close>.
\<close>

type_synonym path = "string list"

definition path_join :: "path \<Rightarrow> string \<Rightarrow> path" where
  "path_join dir name = dir @ [name]"

definition path_string :: "path \<Rightarrow> string" where
  "path_string p = (if p = [] then ''/'' else concat (map (\<lambda>c. CHR ''/'' # c) p))"

datatype errno = ENOENT | EEXIST | EISDIR | ENOTDIR

text \<open>
  What a \<open>throw\<close> carries: an \<open>Error\<close> built by the client with its message, the
  runtime's \<open>TypeError\<close>, \<open>SyntaxError\<close> and \<open>RangeError\<close>, and the system errors of
  \<open>node:fs\<close> (error code, system call, path).
\<close>

datatype error =
    Error string
  | TypeError string
  | SyntaxError string
  | RangeError string
  | SystemError errno string path

fun errno_text :: "errno \<Rightarrow> string" where
  "errno_text ENOENT = ''ENOENT: no such file or directory''"
| "errno_text EEXIST = ''EEXIST: file already exists''"
| "errno_text EISDIR = ''EISDIR: illegal operation on a directory''"
| "errno_text ENOTDIR = ''ENOTDIR: not a directory''"

text \<open>The \<open>message\<close> property of a thrown error.\<close>

fun message :: "error \<Rightarrow> string" where
  "message (Error m) = m"
| "message (TypeError m) = m"
| "message (SyntaxError m) = m"
| "message (RangeError m) = m"
| "message (SystemError c syscall p) =
     errno_text c @ '', '' @ syscall @ '' '' @ [CHR 0x27] @ path_string p @ [CHR 0x27]"

datatype node = Dir | File string

type_synonym filesystem = "path \<rightharpoonup> node"

text \<open>
  \<open>node:fs\<close>, without symbolic links, permissions and device errors. \<open>mkdirSync\<close> is
  not recursive: the parent must be a directory and the path must be free.
  \<open>writeFileSync\<close> takes a string or a buffer, and creates or replaces a file.
\<close>

definition existsSync :: "filesystem \<Rightarrow> path \<Rightarrow> bool" where
  "existsSync fs p = (fs p \<noteq> None)"

definition lstatSync_isDirectory :: "filesystem \<Rightarrow> path \<Rightarrow> bool" where
  "lstatSync_isDirectory fs p = (fs p = Some Dir)"

definition parent_error :: "filesystem \<Rightarrow> string \<Rightarrow> path \<Rightarrow> error option" where
  "parent_error fs syscall p =
     (if p = [] then Some (SystemError ENOENT syscall p)
      else case fs (butlast p) of
             Some Dir \<Rightarrow> None
           | Some (File c) \<Rightarrow> Some (SystemError ENOTDIR syscall p)
           | None \<Rightarrow> Some (SystemError ENOENT syscall p))"

definition mkdirSync :: "path \<Rightarrow> filesystem \<Rightarrow> error + filesystem" where
  "mkdirSync p fs =
     (if fs p \<noteq> None then Inl (SystemError EEXIST ''mkdir'' p)
      else case parent_error fs ''mkdir'' p of
             Some e \<Rightarrow> Inl e
           | None \<Rightarrow> Inr (fs(p \<mapsto> Dir)))"

fun data_bytes :: "jsval \<Rightarrow> string option" where
  "data_bytes (JStr s) = Some s"
| "data_bytes (JBuffer b) = Some b"
| "data_bytes v = None"

definition writeFileSync :: "path \<Rightarrow> jsval \<Rightarrow> filesystem \<Rightarrow> error + filesystem" where
  "writeFileSync p data fs =
     (case data_bytes data of
        None \<Rightarrow> Inl (TypeError ''The data argument must be of type string or an instance of Buffer, TypedArray, or DataView.'')
      | Some bytes \<Rightarrow>
          if fs p = Some Dir then Inl (SystemError EISDIR ''open'' p)
          else case parent_error fs ''open'' p of
                 Some e \<Rightarrow> Inl e
               | None \<Rightarrow> Inr (fs(p \<mapsto> File bytes)))"

definition readFileSync :: "filesystem \<Rightarrow> path \<Rightarrow> error + string" where
  "readFileSync fs p =
     (case fs p of
        Some (File bytes) \<Rightarrow> Inr bytes
      | Some Dir \<Rightarrow> Inl (SystemError EISDIR ''read'' p)
      | None \<Rightarrow> Inl (SystemError ENOENT ''open'' p))"

section \<open>The helpers of \<open>utils\<close>\<close>

definition checkIsDirectory :: "filesystem \<Rightarrow> path \<Rightarrow> bool" where
  "checkIsDirectory fs filePath = (existsSync fs filePath \<and> lstatSync_isDirectory fs filePath)"

definition createDirectory :: "path \<Rightarrow> filesystem \<Rightarrow> error + filesystem" where
  "createDirectory directoryPath fs = mkdirSync directoryPath fs"

definition writeToFile :: "path \<Rightarrow> jsval \<Rightarrow> filesystem \<Rightarrow> error + filesystem" where
  "writeToFile filePath data fs = writeFileSync filePath data fs"

section \<open>The client's data\<close>

record GCCredentials =
  username :: string
  password :: string

text \<open>
  The two token fields of the HTTP client that \<open>GarminConnect\<close> reads and assigns
  (\<open>IOauth1Token | undefined\<close>, \<open>IOauth2Token | undefined\<close>; \<open>JSON.parse\<close> can put any
  value there).
\<close>

record HttpClient =
  oauth1Token :: jsval
  oauth2Token :: jsval

record IGarminTokens =
  oauth1 :: jsval
  oauth2 :: jsval

text \<open>A date object: its time value, or the invalid date.\<close>

datatype Date = Date int | InvalidDate

text \<open>
  The members of \<open>UrlClass\<close> that the client uses: getters that give a string, and
  functions of identifiers. Activity identifiers (\<open>GCActivityId\<close>) are numbers.
\<close>

record UrlClass =
  USER_SETTINGS :: string
  USER_PROFILE :: string
  ACTIVITIES :: string
  ACTIVITY :: string
  STAT_ACTIVITIES :: string
  ACTIVITY_GEAR :: string
  ACTIVITY_GEAR_LINK :: "string \<Rightarrow> int \<Rightarrow> string"
  ACTIVITY_GEAR_UNLINK :: "string \<Rightarrow> int \<Rightarrow> string"
  DOWNLOAD_TCX :: string
  DOWNLOAD_GPX :: string
  DOWNLOAD_KML :: string
  DOWNLOAD_ZIP :: string
  UPLOAD :: "string \<Rightarrow> string"
  UPLOAD_ACTIVITY_STATUS :: "jsval \<Rightarrow> string \<Rightarrow> string"
  WORKOUTS :: string
  WORKOUT :: "string option \<Rightarrow> string"
  DAILY_STEPS :: string
  DAILY_SLEEP :: string
  DAILY_WEIGHT :: string
  DAILY_HYDRATION :: string
  UPDATE_WEIGHT :: string
  HYDRATION_LOG :: string
  GOLF_SCORECARD_SUMMARY :: string
  GOLF_SCORECARD_DETAIL :: string
  DAILY_HEART_RATE :: string

type_synonym EventCallback = "jsval \<Rightarrow> unit"

type_synonym Listeners = "string \<rightharpoonup> EventCallback list"

record GarminConnect =
  client :: HttpClient
  userHash :: jsval
  credentials :: GCCredentials
  listeners :: Listeners
  url :: UrlClass

text \<open>A call of a method of the HTTP client; an argument left out is \<open>JUndefined\<close>.\<close>

datatype client_call =
    ClientLogin string string
  | ClientGet string jsval
  | ClientPost string jsval jsval
  | ClientPut string jsval jsval
  | ClientDelete string jsval

text \<open>
  What lies outside the client object: the disk, the calls made to the HTTP client so
  far, each with its outcome, and the errors thrown so far, in the order of the throws
  (by a collaborator, by the file system, by the client's own \<open>throw\<close>).
\<close>

record world =
  disk :: filesystem
  calls :: "(client_call \<times> (error + jsval)) list"
  raised :: "error list"

text \<open>
  The collaborators whose code is not part of \<open>GarminConnect\<close>, as parameters: the HTTP
  client's methods (\<open>http\<close>: the outcome of a call, and the client's token fields after
  it, given the world and the fields before), the runtime's \<open>JSON\<close>, \<open>path.extname\<close>,
  \<open>fs.createReadStream\<close> (which checks its path argument at once and opens the file
  later), conversion of a number to a string (in a template literal, or appended to a
  string) and clock, the values of the enum \<open>UploadFileType\<close>, the constructors of \<open>UrlClass\<close>,
  \<open>HttpClient\<close> and \<open>Running\<close>, the helpers of \<open>DateUtils\<close>, \<open>WeightUtils\<close> and
  \<open>HydrationUtils\<close>, the methods of \<open>Running\<close>, \<open>_.omit\<close>, and the content type a
  multipart form announces.
\<close>

record env =
  http :: "world \<Rightarrow> client_call \<Rightarrow> HttpClient \<Rightarrow> (error + jsval) \<times> HttpClient"
  JSON_stringify :: "jsval \<Rightarrow> string"
  JSON_parse :: "string \<Rightarrow> error + jsval"
  extname :: "string \<Rightarrow> string"
  createReadStream :: "string \<Rightarrow> error + jsval"
  Number_toString :: "int \<Rightarrow> string"
  UploadFileType :: "string list"
  new_UrlClass :: "string \<Rightarrow> UrlClass"
  new_HttpClient :: "UrlClass \<Rightarrow> HttpClient"
  new_Date :: Date
  today :: string
  Date_getTime :: "string \<Rightarrow> jsval"
  toISOString :: "Date \<Rightarrow> error + string"
  toDateString :: "Date \<Rightarrow> error + string"
  calculateTimeDifference :: "jsval \<Rightarrow> jsval \<Rightarrow> error + jsval"
  getLocalTimestamp :: "Date \<Rightarrow> string \<Rightarrow> error + jsval"
  gramsToPounds :: "int \<Rightarrow> jsval"
  convertMLToOunces :: "jsval \<Rightarrow> jsval"
  convertOuncesToML :: "jsval \<Rightarrow> jsval"
  new_Running :: "(string \<times> jsval) list"
  Running_isValid :: "(string \<times> jsval) list \<Rightarrow> error + bool"
  Running_toJson :: "(string \<times> jsval) list \<Rightarrow> error + (string \<times> jsval) list"
  omit :: "jsval \<Rightarrow> string list \<Rightarrow> (string \<times> jsval) list"
  form_content_type :: "jsval \<Rightarrow> jsval"

text \<open>An operation's outcome, with the client object and the world it leaves: a
  \<open>throw\<close> keeps the assignments and the writes made before it.\<close>

type_synonym 'a outcome = "(error + 'a) \<times> GarminConnect \<times> world"

definition throw :: "error \<Rightarrow> GarminConnect \<Rightarrow> world \<Rightarrow> 'a outcome" where
  "throw e gc w = (Inl e, gc, w\<lparr>raised := raised w @ [e]\<rparr>)"

section \<open>Construction\<close>

text \<open>
  The module-level \<open>config\<close>: \<open>undefined\<close>, unless requiring \<open>garmin.config.json\<close>
  succeeds; a failure of the \<open>require\<close> is caught and dropped.
\<close>

definition config :: "error + GCCredentials \<Rightarrow> GCCredentials option" where
  "config required = (case required of Inl e \<Rightarrow> None | Inr c \<Rightarrow> Some c)"

text \<open>
  \<open>new GarminConnect(credentials = config, domain = 'garmin.com')\<close>: an argument left
  out (\<open>None\<close>) takes its default.
\<close>

definition new_GarminConnect ::
  "env \<Rightarrow> GCCredentials option \<Rightarrow> GCCredentials option \<Rightarrow> string option \<Rightarrow> error + GarminConnect" where
  "new_GarminConnect E cfg credentials_arg domain_arg =
     (let credentials' = (case credentials_arg of None \<Rightarrow> cfg | Some c \<Rightarrow> Some c);
          domain = (case domain_arg of None \<Rightarrow> ''garmin.com'' | Some d \<Rightarrow> d)
      in case credentials' of
           None \<Rightarrow> Inl (Error ''Missing credentials'')
         | Some c \<Rightarrow>
             Inr \<lparr> client = new_HttpClient E (new_UrlClass E domain),
                   userHash = JUndefined,
                   credentials = c,
                   listeners = Map.empty,
                   url = new_UrlClass E domain \<rparr>)"

section \<open>The token store\<close>

definition exportTokenToFile :: "env \<Rightarrow> path \<Rightarrow> GarminConnect \<Rightarrow> world \<Rightarrow> unit outcome" where
  "exportTokenToFile E dirPath gc w =
     (case (if \<not> checkIsDirectory (disk w) dirPath then createDirectory dirPath (disk w)
            else Inr (disk w)) of
        Inl e \<Rightarrow> throw e gc w
      | Inr d1 \<Rightarrow>
          (case (if truthy (oauth1Token (client gc))
                 then writeToFile (path_join dirPath ''oauth1_token.json'')
                        (JStr (JSON_stringify E (oauth1Token (client gc)))) d1
                 else Inr d1) of
             Inl e \<Rightarrow> throw e gc (w\<lparr>disk := d1\<rparr>)
           | Inr d2 \<Rightarrow>
               (case (if truthy (oauth2Token (client gc))
                      then writeToFile (path_join dirPath ''oauth2_token.json'')
                             (JStr (JSON_stringify E (oauth2Token (client gc)))) d2
                      else Inr d2) of
                  Inl e \<Rightarrow> throw e gc (w\<lparr>disk := d2\<rparr>)
                | Inr d3 \<Rightarrow> (Inr (), gc, w\<lparr>disk := d3\<rparr>))))"

definition loadTokenByFile :: "env \<Rightarrow> path \<Rightarrow> GarminConnect \<Rightarrow> world \<Rightarrow> unit outcome" where
  "loadTokenByFile E dirPath gc w =
     (if \<not> checkIsDirectory (disk w) dirPath
      then throw (Error (''loadTokenByFile: Directory not found: '' @ path_string dirPath)) gc w
      else case readFileSync (disk w) (path_join dirPath ''oauth1_token.json'') of
             Inl e \<Rightarrow> throw e gc w
           | Inr oauth1Data \<Rightarrow>
               (case JSON_parse E oauth1Data of
                  Inl e \<Rightarrow> throw e gc w
                | Inr t1 \<Rightarrow>
                    (let gc1 = gc\<lparr>client := (client gc)\<lparr>oauth1Token := t1\<rparr>\<rparr>
                     in case readFileSync (disk w) (path_join dirPath ''oauth2_token.json'') of
                          Inl e \<Rightarrow> throw e gc1 w
                        | Inr oauth2Data \<Rightarrow>
                            (case JSON_parse E oauth2Data of
                               Inl e \<Rightarrow> throw e gc1 w
                             | Inr t2 \<Rightarrow>
                                 (Inr (), gc1\<lparr>client := (client gc1)\<lparr>oauth2Token := t2\<rparr>\<rparr>, w)))))"

definition exportToken :: "GarminConnect \<Rightarrow> error + IGarminTokens" where
  "exportToken gc =
     (if \<not> truthy (oauth1Token (client gc)) \<or> \<not> truthy (oauth2Token (client gc))
      then Inl (Error ''exportToken: Token not found'')
      else Inr \<lparr> oauth1 = oauth1Token (client gc), oauth2 = oauth2Token (client gc) \<rparr>)"

definition loadToken :: "jsval \<Rightarrow> jsval \<Rightarrow> GarminConnect \<Rightarrow> GarminConnect" where
  "loadToken oauth1_arg oauth2_arg gc =
     gc\<lparr>client := (client gc)\<lparr>oauth1Token := oauth1_arg, oauth2Token := oauth2_arg\<rparr>\<rparr>"

section \<open>Strings, numbers and properties\<close>

text \<open>\<open>String.prototype.toLowerCase\<close>, on the letters of ASCII.\<close>

definition lower_char :: "char \<Rightarrow> char" where
  "lower_char c =
     (case map_of (zip ''ABCDEFGHIJKLMNOPQRSTUVWXYZ'' ''abcdefghijklmnopqrstuvwxyz'') c of
        None \<Rightarrow> c
      | Some l \<Rightarrow> l)"

definition toLowerCase :: "string \<Rightarrow> string" where
  "toLowerCase s = map lower_char s"

text \<open>
  Reading a property: of \<open>undefined\<close> and \<open>null\<close> it throws; of an object it gives the
  value stored, or \<open>undefined\<close>; the properties asked for here are no built-in property
  of a string, number, array or buffer, which give \<open>undefined\<close>.
\<close>

definition obj_get :: "(string \<times> jsval) list \<Rightarrow> string \<Rightarrow> jsval" where
  "obj_get kvs k = (case map_of kvs k of None \<Rightarrow> JUndefined | Some v \<Rightarrow> v)"

fun obj_set :: "string \<Rightarrow> jsval \<Rightarrow> (string \<times> jsval) list \<Rightarrow> (string \<times> jsval) list" where
  "obj_set k v [] = [(k, v)]"
| "obj_set k v ((k', v') # kvs) = (if k' = k then (k, v) # kvs else (k', v') # obj_set k v kvs)"

fun property :: "jsval \<Rightarrow> string \<Rightarrow> jsval" where
  "property (JObj kvs) k = obj_get kvs k"
| "property v k = JUndefined"

definition get_prop :: "jsval \<Rightarrow> string \<Rightarrow> error + jsval" where
  "get_prop v k =
     (if v = JUndefined \<or> v = JNull
      then Inl (TypeError (''Cannot read properties of undefined or null (reading '' @ k @ '')''))
      else Inr (property v k))"

section \<open>Sequencing\<close>

definition and_then ::
  "'a outcome \<Rightarrow> ('a \<Rightarrow> GarminConnect \<Rightarrow> world \<Rightarrow> 'b outcome) \<Rightarrow> 'b outcome" where
  "and_then m f = (case m of (Inl e, gc, w) \<Rightarrow> (Inl e, gc, w) | (Inr v, gc, w) \<Rightarrow> f v gc w)"

text \<open>
  A body inside \<open>try\<close>, with the handler that throws a new \<open>Error\<close> whose message is
  \<open>Error in\<close>, the operation's name, a colon and the message of the error caught.
\<close>

definition rethrow :: "string \<Rightarrow> 'a outcome \<Rightarrow> 'a outcome" where
  "rethrow name m =
     (case m of
        (Inl e, gc, w) \<Rightarrow> throw (Error (''Error in '' @ name @ '': '' @ message e)) gc w
      | (Inr v, gc, w) \<Rightarrow> (Inr v, gc, w))"

text \<open>The outcome of a collaborator that returns or throws.\<close>

definition lift :: "error + 'a \<Rightarrow> GarminConnect \<Rightarrow> world \<Rightarrow> 'a outcome" where
  "lift r gc w = (case r of Inl e \<Rightarrow> throw e gc w | Inr v \<Rightarrow> (Inr v, gc, w))"

text \<open>A call of the HTTP client: its outcome, the client's fields after it, and the
  call recorded.\<close>

definition client_request :: "env \<Rightarrow> client_call \<Rightarrow> GarminConnect \<Rightarrow> world \<Rightarrow> jsval outcome" where
  "client_request E c gc w =
     (case http E w c (client gc) of
        (r, client') \<Rightarrow>
          lift r (gc\<lparr>client := client'\<rparr>) (w\<lparr>calls := calls w @ [(c, r)]\<rparr>))"

definition client_get :: "env \<Rightarrow> string \<Rightarrow> jsval \<Rightarrow> GarminConnect \<Rightarrow> world \<Rightarrow> jsval outcome" where
  "client_get E u cfg gc w = client_request E (ClientGet u cfg) gc w"

definition client_post :: "env \<Rightarrow> string \<Rightarrow> jsval \<Rightarrow> jsval \<Rightarrow> GarminConnect \<Rightarrow> world \<Rightarrow> jsval outcome" where
  "client_post E u data cfg gc w = client_request E (ClientPost u data cfg) gc w"

definition client_put :: "env \<Rightarrow> string \<Rightarrow> jsval \<Rightarrow> jsval \<Rightarrow> GarminConnect \<Rightarrow> world \<Rightarrow> jsval outcome" where
  "client_put E u data cfg gc w = client_request E (ClientPut u data cfg) gc w"

definition client_delete :: "env \<Rightarrow> string \<Rightarrow> jsval \<Rightarrow> GarminConnect \<Rightarrow> world \<Rightarrow> jsval outcome" where
  "client_delete E u cfg gc w = client_request E (ClientDelete u cfg) gc w"

section \<open>Transfers\<close>

text \<open>The request each export type makes, in the order of the \<open>if\<close> chain.\<close>

definition download_request :: "env \<Rightarrow> UrlClass \<Rightarrow> int \<Rightarrow> string \<Rightarrow> client_call option" where
  "download_request E u activityId t =
     (if t = ''tcx'' then Some (ClientGet (DOWNLOAD_TCX u @ Number_toString E activityId) JUndefined)
      else if t = ''gpx'' then Some (ClientGet (DOWNLOAD_GPX u @ Number_toString E activityId) JUndefined)
      else if t = ''kml'' then Some (ClientGet (DOWNLOAD_KML u @ Number_toString E activityId) JUndefined)
      else if t = ''zip'' then
        Some (ClientGet (DOWNLOAD_ZIP u @ Number_toString E activityId)
                (JObj [(''responseType'', JStr ''arraybuffer'')]))
      else None)"

definition downloadOriginalActivityData ::
  "env \<Rightarrow> int \<Rightarrow> path \<Rightarrow> string option \<Rightarrow> GarminConnect \<Rightarrow> world \<Rightarrow> unit outcome" where
  "downloadOriginalActivityData E activityId dir type_arg gc w =
     (let t = (case type_arg of None \<Rightarrow> ''zip'' | Some t \<Rightarrow> t) in
      if activityId = 0 then throw (Error ''Missing activityId'') gc w
      else case (if \<not> checkIsDirectory (disk w) dir then createDirectory dir (disk w)
                 else Inr (disk w)) of
             Inl e \<Rightarrow> throw e gc w
           | Inr d1 \<Rightarrow>
               (case download_request E (url gc) activityId t of
                  None \<Rightarrow>
                    throw (Error (''downloadOriginalActivityData - Invalid type: '' @ t))
                      gc (w\<lparr>disk := d1\<rparr>)
                | Some c \<Rightarrow>
                    and_then (client_request E c gc (w\<lparr>disk := d1\<rparr>))
                      (\<lambda>fileBuffer gc w.
                         case writeToFile (path_join dir (Number_toString E activityId @ ''.'' @ t))
                                fileBuffer (disk w) of
                           Inl e \<Rightarrow> throw e gc w
                         | Inr d2 \<Rightarrow> (Inr (), gc, w\<lparr>disk := d2\<rparr>))))"

text \<open>
  The multipart form is the list of its fields. \<open>fs.createReadStream(file)\<close> gives the
  stream appended to the form, or throws at once for a path it refuses; the file is opened
  only when the HTTP client reads the form.
\<close>

definition uploadActivity ::
  "env \<Rightarrow> string \<Rightarrow> string option \<Rightarrow> GarminConnect \<Rightarrow> world \<Rightarrow> jsval outcome" where
  "uploadActivity E file format_arg gc w =
     (let format = (case format_arg of None \<Rightarrow> ''fit'' | Some f \<Rightarrow> f);
          detectedFormat = toLowerCase (if format \<noteq> [] then format else extname E file)
      in if detectedFormat \<notin> set (UploadFileType E)
         then throw (Error (''uploadActivity - Invalid format: '' @ format)) gc w
         else and_then (lift (createReadStream E file) gc w)
                (\<lambda>fileBuffer gc1 w1.
                   let form = JObj [(''userfile'', fileBuffer)]
                   in client_post E (UPLOAD (url gc1) format) form
                        (JObj [(''headers'', JObj [(''Content-Type'', form_content_type E form)])])
                        gc1 w1))"

section \<open>The facade\<close>

text \<open>The default \<open>date = new Date()\<close> of an argument left out.\<close>

definition date_or_now :: "env \<Rightarrow> Date option \<Rightarrow> Date" where
  "date_or_now E date_arg = (case date_arg of None \<Rightarrow> new_Date E | Some d \<Rightarrow> d)"

definition params :: "(string \<times> jsval) list \<Rightarrow> jsval" where
  "params kvs = JObj [(''params'', JObj kvs)]"

text \<open>\<open>login\<close> returns the client object itself: the object of the outcome.\<close>

definition login ::
  "env \<Rightarrow> string option \<Rightarrow> string option \<Rightarrow> GarminConnect \<Rightarrow> world \<Rightarrow> unit outcome" where
  "login E username_arg password_arg gc w =
     (let gc1 = (case (username_arg, password_arg) of
                   (Some u, Some p) \<Rightarrow>
                     if u \<noteq> [] \<and> p \<noteq> []
                     then gc\<lparr>credentials := (credentials gc)\<lparr>username := u, password := p\<rparr>\<rparr>
                     else gc
                 | _ \<Rightarrow> gc)
      in and_then
           (client_request E
              (ClientLogin (username (credentials gc1)) (password (credentials gc1))) gc1 w)
           (\<lambda>r gc2 w2. (Inr (), gc2, w2)))"

definition getUserSettings :: "env \<Rightarrow> GarminConnect \<Rightarrow> world \<Rightarrow> jsval outcome" where
  "getUserSettings E gc w = client_get E (USER_SETTINGS (url gc)) JUndefined gc w"

definition getUserProfile :: "env \<Rightarrow> GarminConnect \<Rightarrow> world \<Rightarrow> jsval outcome" where
  "getUserProfile E gc w = client_get E (USER_PROFILE (url gc)) JUndefined gc w"

definition getActivities ::
  "env \<Rightarrow> jsval \<Rightarrow> jsval \<Rightarrow> jsval \<Rightarrow> jsval \<Rightarrow> GarminConnect \<Rightarrow> world \<Rightarrow> jsval outcome" where
  "getActivities E start limit activityType subActivityType gc w =
     client_get E (ACTIVITIES (url gc))
       (params [(''start'', start), (''limit'', limit), (''activityType'', activityType),
                (''subActivityType'', subActivityType)]) gc w"

definition getActivity :: "env \<Rightarrow> int \<Rightarrow> GarminConnect \<Rightarrow> world \<Rightarrow> jsval outcome" where
  "getActivity E activityId gc w =
     (if activityId = 0 then throw (Error ''Missing activityId'') gc w
      else client_get E (ACTIVITY (url gc) @ Number_toString E activityId) JUndefined gc w)"

definition countActivities :: "env \<Rightarrow> GarminConnect \<Rightarrow> world \<Rightarrow> jsval outcome" where
  "countActivities E gc w =
     client_get E (STAT_ACTIVITIES (url gc))
       (params [(''aggregation'', JStr ''lifetime''), (''startDate'', JStr ''1970-01-01''),
                (''endDate'', JStr (today E)), (''metric'', JStr ''duration'')]) gc w"

definition getGears :: "env \<Rightarrow> jsval \<Rightarrow> GarminConnect \<Rightarrow> world \<Rightarrow> jsval outcome" where
  "getGears E userProfilePk gc w =
     client_get E (ACTIVITY_GEAR (url gc)) (params [(''userProfilePk'', userProfilePk)]) gc w"

definition getActivityGear :: "env \<Rightarrow> string \<Rightarrow> GarminConnect \<Rightarrow> world \<Rightarrow> jsval outcome" where
  "getActivityGear E activityId gc w =
     client_get E (ACTIVITY_GEAR (url gc)) (params [(''activityId'', JStr activityId)]) gc w"

definition linkActivityGear :: "env \<Rightarrow> string \<Rightarrow> int \<Rightarrow> GarminConnect \<Rightarrow> world \<Rightarrow> jsval outcome" where
  "linkActivityGear E gearUuid activityId gc w =
     client_put E (ACTIVITY_GEAR_LINK (url gc) gearUuid activityId) (JObj []) JUndefined gc w"

definition unlinkActivityGear :: "env \<Rightarrow> string \<Rightarrow> int \<Rightarrow> GarminConnect \<Rightarrow> world \<Rightarrow> jsval outcome" where
  "unlinkActivityGear E gearUuid activityId gc w =
     client_put E (ACTIVITY_GEAR_UNLINK (url gc) gearUuid activityId) (JObj []) JUndefined gc w"

definition getUploadActivityDetails ::
  "env \<Rightarrow> string \<Rightarrow> string \<Rightarrow> GarminConnect \<Rightarrow> world \<Rightarrow> jsval outcome" where
  "getUploadActivityDetails E uploadCreationDate activityId gc w =
     client_get E (UPLOAD_ACTIVITY_STATUS (url gc) (Date_getTime E uploadCreationDate) activityId)
       JUndefined gc w"

definition deleteActivity :: "env \<Rightarrow> int \<Rightarrow> GarminConnect \<Rightarrow> world \<Rightarrow> jsval outcome" where
  "deleteActivity E activityId gc w =
     (if activityId = 0 then throw (Error ''Missing activityId'') gc w
      else client_delete E (ACTIVITY (url gc) @ Number_toString E activityId) JUndefined gc w)"

definition getWorkouts :: "env \<Rightarrow> int \<Rightarrow> int \<Rightarrow> GarminConnect \<Rightarrow> world \<Rightarrow> jsval outcome" where
  "getWorkouts E start limit gc w =
     client_get E (WORKOUTS (url gc)) (params [(''start'', JNum start), (''limit'', JNum limit)]) gc w"

definition getWorkoutDetail :: "env \<Rightarrow> string \<Rightarrow> GarminConnect \<Rightarrow> world \<Rightarrow> jsval outcome" where
  "getWorkoutDetail E workoutId gc w =
     (if workoutId = [] then throw (Error ''Missing workoutId'') gc w
      else client_get E (WORKOUT (url gc) (Some workoutId)) JUndefined gc w)"

text \<open>
  The argument of \<open>addWorkout\<close>: an instance of \<open>Running\<close> (its own properties), or any
  other value.
\<close>

datatype workout = Running "(string \<times> jsval) list" | Detail jsval

definition with_description :: "(string \<times> jsval) list \<Rightarrow> (string \<times> jsval) list" where
  "with_description data =
     (if \<not> truthy (obj_get data ''description'')
      then obj_set ''description'' (JStr ''Added by garmin-connect for Node.js'') data
      else data)"

definition post_new_workout :: "env \<Rightarrow> jsval \<Rightarrow> GarminConnect \<Rightarrow> world \<Rightarrow> jsval outcome" where
  "post_new_workout E v gc w =
     client_post E (WORKOUT (url gc) None)
       (JObj (with_description
                (omit E v [''workoutId'', ''ownerId'', ''updatedDate'', ''createdDate'', ''author''])))
       JUndefined gc w"

definition addWorkout :: "env \<Rightarrow> workout \<Rightarrow> GarminConnect \<Rightarrow> world \<Rightarrow> jsval outcome" where
  "addWorkout E workout_arg gc w =
     (case workout_arg of
        Detail v \<Rightarrow>
          if \<not> truthy v then throw (Error ''Missing workout'') gc w
          else post_new_workout E v gc w
      | Running r \<Rightarrow>
          and_then (lift (Running_isValid E r) gc w)
            (\<lambda>valid gc1 w1.
               if valid
               then and_then (lift (Running_toJson E r) gc1 w1)
                      (\<lambda>json gc2 w2.
                         client_post E (WORKOUT (url gc2) None) (JObj (with_description json))
                           JUndefined gc2 w2)
               else post_new_workout E (JObj r) gc1 w1))"

definition addRunningWorkout ::
  "env \<Rightarrow> string \<Rightarrow> jsval \<Rightarrow> string \<Rightarrow> GarminConnect \<Rightarrow> world \<Rightarrow> jsval outcome" where
  "addRunningWorkout E name meters description gc w =
     addWorkout E
       (Running (obj_set ''description'' (JStr description)
                  (obj_set ''distance'' meters (obj_set ''name'' (JStr name) (new_Running E)))))
       gc w"

definition deleteWorkout :: "env \<Rightarrow> string \<Rightarrow> GarminConnect \<Rightarrow> world \<Rightarrow> jsval outcome" where
  "deleteWorkout E workoutId gc w =
     (if workoutId = [] then throw (Error ''Missing workout'') gc w
      else client_delete E (WORKOUT (url gc) (Some workoutId)) JUndefined gc w)"

definition addActivity :: "env \<Rightarrow> jsval \<Rightarrow> GarminConnect \<Rightarrow> world \<Rightarrow> jsval outcome" where
  "addActivity E activity gc w = client_post E (ACTIVITY (url gc)) activity JUndefined gc w"

text \<open>
  \<open>days.find(({ calendarDate }) => calendarDate === dateString)\<close>: the first element
  whose \<open>calendarDate\<close> is the string, \<open>undefined\<close> when there is none.
\<close>

fun find_day :: "string \<Rightarrow> jsval list \<Rightarrow> error + jsval" where
  "find_day dateString [] = Inr JUndefined"
| "find_day dateString (x # xs) =
     (case get_prop x ''calendarDate'' of
        Inl e \<Rightarrow> Inl e
      | Inr calendarDate \<Rightarrow> if calendarDate = JStr dateString then Inr x else find_day dateString xs)"

definition days_find :: "jsval \<Rightarrow> string \<Rightarrow> error + jsval" where
  "days_find days dateString =
     (case days of
        JArr xs \<Rightarrow> find_day dateString xs
      | _ \<Rightarrow> (case get_prop days ''find'' of
                Inl e \<Rightarrow> Inl e
              | Inr f \<Rightarrow> Inl (TypeError ''days.find is not a function'')))"

definition getSteps :: "env \<Rightarrow> Date option \<Rightarrow> GarminConnect \<Rightarrow> world \<Rightarrow> jsval outcome" where
  "getSteps E date_arg gc w =
     and_then (lift (toDateString E (date_or_now E date_arg)) gc w)
       (\<lambda>dateString gc1 w1.
          and_then (client_get E (DAILY_STEPS (url gc1) @ dateString @ ''/'' @ dateString)
                      JUndefined gc1 w1)
            (\<lambda>days gc2 w2.
               and_then (lift (days_find days dateString) gc2 w2)
                 (\<lambda>dayStats gc3 w3.
                    if \<not> truthy dayStats
                    then throw (Error ''Can't find daily steps for this date.'') gc3 w3
                    else (Inr (property dayStats ''totalSteps''), gc3, w3))))"

definition getSleepData :: "env \<Rightarrow> Date option \<Rightarrow> GarminConnect \<Rightarrow> world \<Rightarrow> jsval outcome" where
  "getSleepData E date_arg gc w =
     rethrow ''getSleepData''
       (and_then (lift (toDateString E (date_or_now E date_arg)) gc w)
          (\<lambda>dateString gc1 w1.
             and_then (client_get E (DAILY_SLEEP (url gc1)) (params [(''date'', JStr dateString)])
                         gc1 w1)
               (\<lambda>sleepData gc2 w2.
                  if \<not> truthy sleepData
                  then throw (Error ''Invalid or empty sleep data response.'') gc2 w2
                  else (Inr sleepData, gc2, w2))))"

definition getSleepDuration :: "env \<Rightarrow> Date option \<Rightarrow> GarminConnect \<Rightarrow> world \<Rightarrow> jsval outcome" where
  "getSleepDuration E date_arg gc w =
     rethrow ''getSleepDuration''
       (and_then (getSleepData E (Some (date_or_now E date_arg)) gc w)
          (\<lambda>sleepData gc1 w1.
             if \<not> truthy sleepData \<or> \<not> truthy (property sleepData ''dailySleepDTO'')
                \<or> property (property sleepData ''dailySleepDTO'') ''sleepStartTimestampGMT'' = JUndefined
                \<or> property (property sleepData ''dailySleepDTO'') ''sleepEndTimestampGMT'' = JUndefined
             then throw (Error ''Invalid or missing sleep data for the specified date.'') gc1 w1
             else and_then
                    (lift (calculateTimeDifference E
                             (property (property sleepData ''dailySleepDTO'') ''sleepStartTimestampGMT'')
                             (property (property sleepData ''dailySleepDTO'') ''sleepEndTimestampGMT''))
                       gc1 w1)
                    (\<lambda>difference gc2 w2.
                       and_then (lift (get_prop difference ''hours'') gc2 w2)
                         (\<lambda>hours gc3 w3.
                            (Inr (JObj [(''hours'', hours),
                                        (''minutes'', property difference ''minutes'')]),
                             gc3, w3)))))"

definition getDailyWeightData :: "env \<Rightarrow> Date option \<Rightarrow> GarminConnect \<Rightarrow> world \<Rightarrow> jsval outcome" where
  "getDailyWeightData E date_arg gc w =
     rethrow ''getDailyWeightData''
       (and_then (lift (toDateString E (date_or_now E date_arg)) gc w)
          (\<lambda>dateString gc1 w1.
             and_then (client_get E (DAILY_WEIGHT (url gc1) @ ''/'' @ dateString) JUndefined gc1 w1)
               (\<lambda>weightData gc2 w2.
                  if \<not> truthy weightData
                  then throw (Error ''Invalid or empty weight data response.'') gc2 w2
                  else (Inr weightData, gc2, w2))))"

definition getDailyWeightInPounds ::
  "env \<Rightarrow> Date option \<Rightarrow> GarminConnect \<Rightarrow> world \<Rightarrow> jsval outcome" where
  "getDailyWeightInPounds E date_arg gc w =
     and_then (getDailyWeightData E (Some (date_or_now E date_arg)) gc w)
       (\<lambda>weightData gc1 w1.
          case (if truthy (property weightData ''totalAverage'')
                then property (property weightData ''totalAverage'') ''weight''
                else JUndefined) of
            JNum weight \<Rightarrow> (Inr (gramsToPounds E weight), gc1, w1)
          | _ \<Rightarrow> throw (Error ''Can't find valid daily weight for this date.'') gc1 w1)"

definition getDailyHydration :: "env \<Rightarrow> Date option \<Rightarrow> GarminConnect \<Rightarrow> world \<Rightarrow> jsval outcome" where
  "getDailyHydration E date_arg gc w =
     rethrow ''getDailyHydration''
       (and_then (lift (toDateString E (date_or_now E date_arg)) gc w)
          (\<lambda>dateString gc1 w1.
             and_then (client_get E (DAILY_HYDRATION (url gc1) @ ''/'' @ dateString) JUndefined
                         gc1 w1)
               (\<lambda>hydrationData gc2 w2.
                  if \<not> truthy hydrationData \<or> \<not> truthy (property hydrationData ''valueInML'')
                  then throw (Error ''Invalid or empty hydration data response.'') gc2 w2
                  else (Inr (convertMLToOunces E (property hydrationData ''valueInML'')), gc2, w2))))"

definition updateWeight ::
  "env \<Rightarrow> Date \<Rightarrow> jsval \<Rightarrow> string \<Rightarrow> GarminConnect \<Rightarrow> world \<Rightarrow> jsval outcome" where
  "updateWeight E date lbs timezone gc w =
     rethrow ''updateWeight''
       (and_then (lift (getLocalTimestamp E date timezone) gc w)
          (\<lambda>dateTimestamp gc1 w1.
             and_then (lift (toISOString E date) gc1 w1)
               (\<lambda>iso gc2 w2.
                  client_post E (UPDATE_WEIGHT (url gc2))
                    (JObj [(''dateTimestamp'', dateTimestamp),
                           (''gmtTimestamp'', JStr (take 23 iso)),
                           (''unitKey'', JStr ''lbs''),
                           (''value'', lbs)])
                    JUndefined gc2 w2)))"

definition updateHydrationLogOunces ::
  "env \<Rightarrow> Date \<Rightarrow> jsval \<Rightarrow> GarminConnect \<Rightarrow> world \<Rightarrow> jsval outcome" where
  "updateHydrationLogOunces E date valueInOz gc w =
     rethrow ''updateHydrationLogOunces''
       (and_then (lift (toDateString E date) gc w)
          (\<lambda>dateString gc1 w1.
             and_then (getUserProfile E gc1 w1)
               (\<lambda>profile gc2 w2.
                  and_then (lift (get_prop profile ''profileId'') gc2 w2)
                    (\<lambda>profileId gc3 w3.
                       and_then (lift (toISOString E date) gc3 w3)
                         (\<lambda>iso gc4 w4.
                            client_put E (HYDRATION_LOG (url gc4))
                              (JObj [(''calendarDate'', JStr dateString),
                                     (''valueInML'', convertOuncesToML E valueInOz),
                                     (''userProfileId'', profileId),
                                     (''timestampLocal'', JStr (take 23 iso))])
                              JUndefined gc4 w4)))))"

definition getGolfSummary :: "env \<Rightarrow> GarminConnect \<Rightarrow> world \<Rightarrow> jsval outcome" where
  "getGolfSummary E gc w =
     rethrow ''getGolfSummary''
       (and_then (client_get E (GOLF_SCORECARD_SUMMARY (url gc)) JUndefined gc w)
          (\<lambda>golfSummary gc1 w1.
             if \<not> truthy golfSummary
             then throw (Error ''Invalid or empty golf summary data response.'') gc1 w1
             else (Inr golfSummary, gc1, w1)))"

definition getGolfScorecard :: "env \<Rightarrow> int \<Rightarrow> GarminConnect \<Rightarrow> world \<Rightarrow> jsval outcome" where
  "getGolfScorecard E scorecardId gc w =
     rethrow ''getGolfScorecard''
       (and_then (client_get E (GOLF_SCORECARD_DETAIL (url gc))
                    (params [(''scorecard-ids'', JNum scorecardId)]) gc w)
          (\<lambda>golfScorecard gc1 w1.
             if \<not> truthy golfScorecard
             then throw (Error ''Invalid or empty golf scorecard data response.'') gc1 w1
             else (Inr golfScorecard, gc1, w1)))"

definition getHeartRate :: "env \<Rightarrow> Date option \<Rightarrow> GarminConnect \<Rightarrow> world \<Rightarrow> jsval outcome" where
  "getHeartRate E date_arg gc w =
     rethrow ''getHeartRate''
       (and_then (lift (toDateString E (date_or_now E date_arg)) gc w)
          (\<lambda>dateString gc1 w1.
             client_get E (DAILY_HEART_RATE (url gc1)) (params [(''date'', JStr dateString)]) gc1 w1))"

definition get :: "env \<Rightarrow> string \<Rightarrow> jsval \<Rightarrow> GarminConnect \<Rightarrow> world \<Rightarrow> jsval outcome" where
  "get E u data gc w = client_get E u data gc w"

definition post :: "env \<Rightarrow> string \<Rightarrow> jsval \<Rightarrow> GarminConnect \<Rightarrow> world \<Rightarrow> jsval outcome" where
  "post E u data gc w = client_post E u data (JObj []) gc w"

definition put :: "env \<Rightarrow> string \<Rightarrow> jsval \<Rightarrow> GarminConnect \<Rightarrow> world \<Rightarrow> jsval outcome" where
  "put E u data gc w = client_put E u data (JObj []) gc w"

section \<open>The public operations of a client object\<close>

datatype api_call =
    Login "string option" "string option"
  | ExportTokenToFile path
  | LoadTokenByFile path
  | ExportToken
  | LoadToken jsval jsval
  | GetUserSettings
  | GetUserProfile
  | GetActivities jsval jsval jsval jsval
  | GetActivity int
  | CountActivities
  | GetGears jsval
  | GetActivityGear string
  | LinkActivityGear string int
  | UnlinkActivityGear string int
  | DownloadOriginalActivityData int path "string option"
  | UploadActivity string "string option"
  | GetUploadActivityDetails string string
  | DeleteActivity int
  | GetWorkouts int int
  | GetWorkoutDetail string
  | AddWorkout workout
  | AddRunningWorkout string jsval string
  | DeleteWorkout string
  | AddActivity jsval
  | GetSteps "Date option"
  | GetSleepData "Date option"
  | GetSleepDuration "Date option"
  | GetDailyWeightData "Date option"
  | GetDailyWeightInPounds "Date option"
  | GetDailyHydration "Date option"
  | UpdateWeight Date jsval string
  | UpdateHydrationLogOunces Date jsval
  | GetGolfSummary
  | GetGolfScorecard int
  | GetHeartRate "Date option"
  | Get string jsval
  | Post string jsval
  | Put string jsval

text \<open>An operation that returns nothing gives \<open>undefined\<close>.\<close>

definition no_value :: "unit outcome \<Rightarrow> jsval outcome" where
  "no_value m = (case m of (r, gc, w) \<Rightarrow> (map_sum id (\<lambda>u. JUndefined) r, gc, w))"

definition tokens_value :: "IGarminTokens \<Rightarrow> jsval" where
  "tokens_value t = JObj [(''oauth1'', oauth1 t), (''oauth2'', oauth2 t)]"

fun perform :: "env \<Rightarrow> api_call \<Rightarrow> GarminConnect \<Rightarrow> world \<Rightarrow> jsval outcome" where
  "perform E (Login u p) gc w = no_value (login E u p gc w)"
| "perform E (ExportTokenToFile dirPath) gc w = no_value (exportTokenToFile E dirPath gc w)"
| "perform E (LoadTokenByFile dirPath) gc w = no_value (loadTokenByFile E dirPath gc w)"
| "perform E ExportToken gc w = lift (map_sum id tokens_value (exportToken gc)) gc w"
| "perform E (LoadToken t1 t2) gc w = (Inr JUndefined, loadToken t1 t2 gc, w)"
| "perform E GetUserSettings gc w = getUserSettings E gc w"
| "perform E GetUserProfile gc w = getUserProfile E gc w"
| "perform E (GetActivities start limit activityType subActivityType) gc w =
     getActivities E start limit activityType subActivityType gc w"
| "perform E (GetActivity activityId) gc w = getActivity E activityId gc w"
| "perform E CountActivities gc w = countActivities E gc w"
| "perform E (GetGears userProfilePk) gc w = getGears E userProfilePk gc w"
| "perform E (GetActivityGear activityId) gc w = getActivityGear E activityId gc w"
| "perform E (LinkActivityGear gearUuid activityId) gc w = linkActivityGear E gearUuid activityId gc w"
| "perform E (UnlinkActivityGear gearUuid activityId) gc w =
     unlinkActivityGear E gearUuid activityId gc w"
| "perform E (DownloadOriginalActivityData activityId dir t) gc w =
     no_value (downloadOriginalActivityData E activityId dir t gc w)"
| "perform E (UploadActivity file format) gc w = uploadActivity E file format gc w"
| "perform E (GetUploadActivityDetails uploadCreationDate activityId) gc w =
     getUploadActivityDetails E uploadCreationDate activityId gc w"
| "perform E (DeleteActivity activityId) gc w = deleteActivity E activityId gc w"
| "perform E (GetWorkouts start limit) gc w = getWorkouts E start limit gc w"
| "perform E (GetWorkoutDetail workoutId) gc w = getWorkoutDetail E workoutId gc w"
| "perform E (AddWorkout wk) gc w = addWorkout E wk gc w"
| "perform E (AddRunningWorkout name meters description) gc w =
     addRunningWorkout E name meters description gc w"
| "perform E (DeleteWorkout workoutId) gc w = deleteWorkout E workoutId gc w"
| "perform E (AddActivity activity) gc w = addActivity E activity gc w"
| "perform E (GetSteps date) gc w = getSteps E date gc w"
| "perform E (GetSleepData date) gc w = getSleepData E date gc w"
| "perform E (GetSleepDuration date) gc w = getSleepDuration E date gc w"
| "perform E (GetDailyWeightData date) gc w = getDailyWeightData E date gc w"
| "perform E (GetDailyWeightInPounds date) gc w = getDailyWeightInPounds E date gc w"
| "perform E (GetDailyHydration date) gc w = getDailyHydration E date gc w"
| "perform E (UpdateWeight date lbs timezone) gc w = updateWeight E date lbs timezone gc w"
| "perform E (UpdateHydrationLogOunces date valueInOz) gc w =
     updateHydrationLogOunces E date valueInOz gc w"
| "perform E GetGolfSummary gc w = getGolfSummary E gc w"
| "perform E (GetGolfScorecard scorecardId) gc w = getGolfScorecard E scorecardId gc w"
| "perform E (GetHeartRate date) gc w = getHeartRate E date gc w"
| "perform E (Get u data) gc w = get E u data gc w"
| "perform E (Post u data) gc w = post E u data gc w"
| "perform E (Put u data) gc w = put E u data gc w"

section \<open>A sample environment\<close>

text \<open>
  Concrete collaborators, tokens and client objects, at which the theorems below are
  instantiated: the values of \<open>UploadFileType\<close>, the sample of the runtime's \<open>JSON\<close> and
  number printing, and a transport that answers a download with a body.
\<close>

text \<open>
  The decimal digits of an integer: what the runtime's conversion of a number to a string
  gives for the integers it holds exactly (up to \<open>2 ^ 53\<close>).
\<close>

definition digit_char :: "int \<Rightarrow> char" where
  "digit_char d =
     (case map_of [(0, CHR ''0''), (1, CHR ''1''), (2, CHR ''2''), (3, CHR ''3''), (4, CHR ''4''),
                   (5, CHR ''5''), (6, CHR ''6''), (7, CHR ''7''), (8, CHR ''8''), (9, CHR ''9'')] d of
        None \<Rightarrow> CHR ''0''
      | Some c \<Rightarrow> c)"

function digits :: "int \<Rightarrow> string" where
  "digits n = (if n < 10 then [digit_char n] else digits (n div 10) @ [digit_char (n mod 10)])"
  by pat_completeness auto
termination
  by (relation "measure nat") auto

definition decimal :: "int \<Rightarrow> string" where
  "decimal i = (if i < 0 then CHR ''-'' # digits (- i) else digits i)"

text \<open>
  A sample of the runtime's \<open>JSON\<close>, for values whose numbers are integers the runtime
  holds exactly, whose strings hold no control character and whose keys are no array
  indices, and for texts without white space, escapes other than of the quote and the
  backslash, fractions or exponents. \<open>JSON.stringify\<close> writes \<open>null\<close> for \<open>undefined\<close>
  in an array, leaves out a property whose value is \<open>undefined\<close>, and writes a buffer as
  the object its \<open>toJSON\<close> gives; it is applied to truthy values only, and for
  \<open>undefined\<close> itself, for which the runtime gives no text, the sample has \<open>null\<close>.
  \<open>JSON.parse\<close> reads one value and nothing after it; of a key that occurs again it
  keeps the first place and the last value.
\<close>

definition escape_char :: "char \<Rightarrow> string" where
  "escape_char c =
     (if c = CHR 0x22 then [CHR 0x5C, CHR 0x22]
      else if c = CHR 0x5C then [CHR 0x5C, CHR 0x5C]
      else [c])"

definition quote :: "string \<Rightarrow> string" where
  "quote s = CHR 0x22 # concat (map escape_char s) @ [CHR 0x22]"

fun bytes_text :: "string \<Rightarrow> string" where
  "bytes_text [] = []"
| "bytes_text [c] = decimal (of_char c)"
| "bytes_text (c # d # cs) = decimal (of_char c) @ '','' @ bytes_text (d # cs)"

fun json_text :: "jsval \<Rightarrow> string"
  and json_elements :: "jsval list \<Rightarrow> string"
  and json_members :: "(string \<times> jsval) list \<Rightarrow> string" where
  "json_text JUndefined = ''null''"
| "json_text JNull = ''null''"
| "json_text (JBool b) = (if b then ''true'' else ''false'')"
| "json_text (JNum n) = decimal n"
| "json_text (JStr s) = quote s"
| "json_text (JBuffer b) = ''{\"type\":\"Buffer\",\"data\":['' @ bytes_text b @ '']}''"
| "json_text (JArr xs) = ''['' @ json_elements xs @ '']''"
| "json_text (JObj kvs) = ''{'' @ json_members kvs @ ''}''"
| "json_elements [] = []"
| "json_elements [x] = json_text x"
| "json_elements (x # y # ys) = json_text x @ '','' @ json_elements (y # ys)"
| "json_members [] = []"
| "json_members ((k, v) # kvs) =
     (if v = JUndefined then json_members kvs
      else quote k @ '':'' @ json_text v
           @ (if json_members kvs = [] then [] else '','' @ json_members kvs))"

fun read_string :: "string \<Rightarrow> (string \<times> string) option" where
  "read_string [] = None"
| "read_string (c # cs) =
     (if c = CHR 0x22 then Some ([], cs)
      else if c = CHR 0x5C then
        (case cs of
           [] \<Rightarrow> None
         | d # ds \<Rightarrow>
             if d = CHR 0x22 \<or> d = CHR 0x5C
             then (case read_string ds of None \<Rightarrow> None | Some (s, r) \<Rightarrow> Some (d # s, r))
             else None)
      else (case read_string cs of None \<Rightarrow> None | Some (s, r) \<Rightarrow> Some (c # s, r)))"

definition is_digit :: "char \<Rightarrow> bool" where
  "is_digit c = (c \<in> set ''0123456789'')"

definition digit_value :: "char \<Rightarrow> int" where
  "digit_value c = (case map_of (zip ''0123456789'' [0, 1, 2, 3, 4, 5, 6, 7, 8, 9]) c of
                      None \<Rightarrow> 0 | Some n \<Rightarrow> n)"

definition read_nat :: "string \<Rightarrow> (int \<times> string) option" where
  "read_nat s =
     (let ds = takeWhile is_digit s; r = dropWhile is_digit s
      in if ds = [] \<or> (length ds > 1 \<and> hd ds = CHR ''0'')
            \<or> (r \<noteq> [] \<and> hd r \<in> set ''.eE'')
         then None
         else Some (foldl (\<lambda>a c. 10 * a + digit_value c) 0 ds, r))"

definition add_member ::
  "string \<Rightarrow> jsval \<Rightarrow> (string \<times> jsval) list \<Rightarrow> (string \<times> jsval) list" where
  "add_member key v later =
     (case map_of later key of
        None \<Rightarrow> (key, v) # later
      | Some v' \<Rightarrow> (key, v') # filter (\<lambda>kv. fst kv \<noteq> key) later)"

fun read_value :: "nat \<Rightarrow> string \<Rightarrow> (jsval \<times> string) option"
  and read_elements :: "nat \<Rightarrow> string \<Rightarrow> (jsval list \<times> string) option"
  and read_members :: "nat \<Rightarrow> string \<Rightarrow> ((string \<times> jsval) list \<times> string) option" where
  "read_value 0 s = None"
| "read_value (Suc k) s =
     (if take 4 s = ''null'' then Some (JNull, drop 4 s)
      else if take 4 s = ''true'' then Some (JBool True, drop 4 s)
      else if take 5 s = ''false'' then Some (JBool False, drop 5 s)
      else case s of
             [] \<Rightarrow> None
           | c # cs \<Rightarrow>
               if c = CHR 0x22 then
                 (case read_string cs of None \<Rightarrow> None | Some (str, r) \<Rightarrow> Some (JStr str, r))
               else if c = CHR ''['' then
                 (if take 1 cs = '']'' then Some (JArr [], drop 1 cs)
                  else case read_elements k cs of
                         None \<Rightarrow> None | Some (xs, r) \<Rightarrow> Some (JArr xs, r))
               else if c = CHR ''{'' then
                 (if take 1 cs = ''}'' then Some (JObj [], drop 1 cs)
                  else case read_members k cs of
                         None \<Rightarrow> None | Some (kvs, r) \<Rightarrow> Some (JObj kvs, r))
               else if c = CHR ''-'' then
                 (case read_nat cs of None \<Rightarrow> None | Some (n, r) \<Rightarrow> Some (JNum (- n), r))
               else (case read_nat s of None \<Rightarrow> None | Some (n, r) \<Rightarrow> Some (JNum n, r)))"
| "read_elements 0 s = None"
| "read_elements (Suc k) s =
     (case read_value k s of
        None \<Rightarrow> None
      | Some (x, r) \<Rightarrow>
          if take 1 r = '','' then
            (case read_elements k (drop 1 r) of
               None \<Rightarrow> None | Some (xs, r') \<Rightarrow> Some (x # xs, r'))
          else if take 1 r = '']'' then Some ([x], drop 1 r)
          else None)"
| "read_members 0 s = None"
| "read_members (Suc k) s =
     (if take 1 s \<noteq> [CHR 0x22] then None
      else case read_string (drop 1 s) of
             None \<Rightarrow> None
           | Some (key, r) \<Rightarrow>
               if take 1 r \<noteq> '':'' then None
               else (case read_value k (drop 1 r) of
                       None \<Rightarrow> None
                     | Some (v, r') \<Rightarrow>
                         if take 1 r' = '','' then
                           (case read_members k (drop 1 r') of
                              None \<Rightarrow> None
                            | Some (kvs, r'') \<Rightarrow> Some (add_member key v kvs, r''))
                         else if take 1 r' = ''}'' then Some ([(key, v)], drop 1 r')
                         else None))"

definition json_read :: "string \<Rightarrow> error + jsval" where
  "json_read s =
     (case read_value (Suc (length s)) s of
        Some (v, []) \<Rightarrow> Inr v
      | _ \<Rightarrow> Inl (SyntaxError ''Unexpected token in JSON''))"

text \<open>
  The values that the sample reads back from its own text: those with no \<open>undefined\<close>
  and no buffer inside, and no key twice in an object. \<open>sep\<close> holds of what may follow
  the text of a value: the end of the input, a comma or a closing bracket.
\<close>

fun plain :: "jsval \<Rightarrow> bool"
  and plain_elements :: "jsval list \<Rightarrow> bool"
  and plain_members :: "(string \<times> jsval) list \<Rightarrow> bool" where
  "plain JUndefined = False"
| "plain JNull = True"
| "plain (JBool b) = True"
| "plain (JNum n) = True"
| "plain (JStr s) = True"
| "plain (JBuffer b) = False"
| "plain (JArr xs) = plain_elements xs"
| "plain (JObj kvs) = plain_members kvs"
| "plain_elements [] = True"
| "plain_elements (x # xs) = (plain x \<and> plain_elements xs)"
| "plain_members [] = True"
| "plain_members ((k, v) # kvs) = (plain v \<and> map_of kvs k = None \<and> plain_members kvs)"

definition sep :: "string \<Rightarrow> bool" where
  "sep r = (r = [] \<or> hd r \<in> set '',]}'')"

definition sample_oauth1 :: jsval where
  "sample_oauth1 = JObj [(''oauth_token'', JStr ''t1''), (''oauth_token_secret'', JStr ''s1'')]"

definition sample_oauth2 :: jsval where
  "sample_oauth2 = JObj [(''access_token'', JStr ''a2''), (''expires_at'', JNum 1700000000)]"

definition sample_oauth1_text :: string where
  "sample_oauth1_text = ''{\"oauth_token\":\"t1\",\"oauth_token_secret\":\"s1\"}''"

definition sample_oauth2_text :: string where
  "sample_oauth2_text = ''{\"access_token\":\"a2\",\"expires_at\":1700000000}''"

definition sample_urls :: "string \<Rightarrow> UrlClass" where
  "sample_urls domain =
     \<lparr> USER_SETTINGS = ''https://connectapi.'' @ domain @ ''/userprofile-service/userprofile/user-settings'',
       USER_PROFILE = ''https://connectapi.'' @ domain @ ''/userprofile-service/socialProfile'',
       ACTIVITIES = ''https://connectapi.'' @ domain @ ''/activitylist-service/activities/search/activities'',
       ACTIVITY = ''https://connectapi.'' @ domain @ ''/activity-service/activity/'',
       STAT_ACTIVITIES = ''https://connectapi.'' @ domain @ ''/fitnessstats-service/activity'',
       ACTIVITY_GEAR = ''https://connectapi.'' @ domain @ ''/gear-service/gear/filterGear'',
       ACTIVITY_GEAR_LINK = (\<lambda>gear activity. ''https://connectapi.'' @ domain @ ''/gear-service/gear/link/''
          @ gear @ ''/activity/'' @ decimal activity),
       ACTIVITY_GEAR_UNLINK = (\<lambda>gear activity. ''https://connectapi.'' @ domain @ ''/gear-service/gear/unlink/''
          @ gear @ ''/activity/'' @ decimal activity),
       DOWNLOAD_TCX = ''https://connectapi.'' @ domain @ ''/download-service/export/tcx/activity/'',
       DOWNLOAD_GPX = ''https://connectapi.'' @ domain @ ''/download-service/export/gpx/activity/'',
       DOWNLOAD_KML = ''https://connectapi.'' @ domain @ ''/download-service/export/kml/activity/'',
       DOWNLOAD_ZIP = ''https://connectapi.'' @ domain @ ''/download-service/files/activity/'',
       UPLOAD = (\<lambda>format. ''https://connectapi.'' @ domain @ ''/upload-service/upload/.'' @ format),
       UPLOAD_ACTIVITY_STATUS = (\<lambda>time activity. ''https://connectapi.'' @ domain
          @ ''/activity-service/activity/status/'' @ activity),
       WORKOUTS = ''https://connectapi.'' @ domain @ ''/workout-service/workouts'',
       WORKOUT = (\<lambda>id. ''https://connectapi.'' @ domain @ ''/workout-service/workout''
          @ (case id of None \<Rightarrow> [] | Some i \<Rightarrow> ''/'' @ i)),
       DAILY_STEPS = ''https://connectapi.'' @ domain @ ''/usersummary-service/stats/steps/daily/'',
       DAILY_SLEEP = ''https://connectapi.'' @ domain @ ''/sleep-service/sleep/dailySleepData'',
       DAILY_WEIGHT = ''https://connectapi.'' @ domain @ ''/weight-service/weight/dayview'',
       DAILY_HYDRATION = ''https://connectapi.'' @ domain @ ''/usersummary-service/usersummary/hydration/allData'',
       UPDATE_WEIGHT = ''https://connectapi.'' @ domain @ ''/weight-service/user-weight'',
       HYDRATION_LOG = ''https://connectapi.'' @ domain @ ''/usersummary-service/usersummary/hydration/log'',
       GOLF_SCORECARD_SUMMARY = ''https://connectapi.'' @ domain @ ''/gcs-golfcommunity/api/v2/scorecard/summary'',
       GOLF_SCORECARD_DETAIL = ''https://connectapi.'' @ domain @ ''/gcs-golfcommunity/api/v2/scorecard/detail'',
       DAILY_HEART_RATE = ''https://connectapi.'' @ domain @ ''/wellness-service/wellness/dailyHeartRate'' \<rparr>"

definition sample_http :: "world \<Rightarrow> client_call \<Rightarrow> HttpClient \<Rightarrow> (error + jsval) \<times> HttpClient" where
  "sample_http w c cl =
     (case c of
        ClientGet u cfg \<Rightarrow>
          if cfg = JObj [(''responseType'', JStr ''arraybuffer'')] then (Inr (JBuffer ''PK''), cl)
          else (Inr (JStr ''<gpx></gpx>''), cl)
      | _ \<Rightarrow> (Inr (JObj []), cl))"

definition failing_http :: "world \<Rightarrow> client_call \<Rightarrow> HttpClient \<Rightarrow> (error + jsval) \<times> HttpClient" where
  "failing_http w c cl = (Inl (Error ''Request failed with status code 500''), cl)"

definition sample_env :: env where
  "sample_env =
     \<lparr> http = sample_http,
       JSON_stringify = json_text,
       JSON_parse = json_read,
       extname = (\<lambda>file. let e = rev (takeWhile (\<lambda>c. c \<noteq> CHR ''.'') (rev file))
                         in if length e = length file then [] else CHR ''.'' # e),
       createReadStream = (\<lambda>file. if CHR 0x00 \<in> set file
                                   then Inl (TypeError ''The argument path must be a string without null bytes'')
                                   else Inr (JObj [(''path'', JStr file)])),
       Number_toString = decimal,
       UploadFileType = [''tcx'', ''gpx'', ''fit''],
       new_UrlClass = sample_urls,
       new_HttpClient = (\<lambda>u. \<lparr> oauth1Token = JUndefined, oauth2Token = JUndefined \<rparr>),
       new_Date = Date 1700000000000,
       today = ''2023-11-14'',
       Date_getTime = (\<lambda>s. JNum 1700000000000),
       toISOString = (\<lambda>d. case d of Date t \<Rightarrow> Inr ''2023-11-14T22:13:20.000Z''
                                   | InvalidDate \<Rightarrow> Inl (RangeError ''Invalid time value'')),
       toDateString = (\<lambda>d. case d of Date t \<Rightarrow> Inr ''2023-11-14''
                                    | InvalidDate \<Rightarrow> Inl (RangeError ''Invalid time value'')),
       calculateTimeDifference = (\<lambda>a b. Inr (JObj [(''hours'', JNum 8), (''minutes'', JNum 0)])),
       getLocalTimestamp = (\<lambda>d tz. Inr (JStr ''2023-11-14T22:13:20.000'')),
       gramsToPounds = (\<lambda>g. JNum (g div 454)),
       convertMLToOunces = (\<lambda>v. case v of JNum n \<Rightarrow> JNum (n div 30) | _ \<Rightarrow> JUndefined),
       convertOuncesToML = (\<lambda>v. case v of JNum n \<Rightarrow> JNum (n * 30) | _ \<Rightarrow> JUndefined),
       new_Running = [],
       Running_isValid = (\<lambda>r. Inr (truthy (obj_get r ''name''))),
       Running_toJson = (\<lambda>r. Inr r),
       omit = (\<lambda>v keys. case v of JObj kvs \<Rightarrow> filter (\<lambda>kv. fst kv \<notin> set keys) kvs | _ \<Rightarrow> []),
       form_content_type = (\<lambda>form. JStr ''multipart/form-data; boundary=sample'') \<rparr>"

definition sample_client :: GarminConnect where
  "sample_client =
     \<lparr> client = \<lparr> oauth1Token = sample_oauth1, oauth2Token = sample_oauth2 \<rparr>,
       userHash = JUndefined,
       credentials = \<lparr> username = ''user@example.com'', password = ''secret'' \<rparr>,
       listeners = Map.empty,
       url = sample_urls ''garmin.com'' \<rparr>"

text \<open>A client object whose OAuth1 token has a property with the value \<open>undefined\<close>.\<close>

definition sparse_client :: GarminConnect where
  "sparse_client =
     \<lparr> client = \<lparr> oauth1Token = JObj [(''oauth_token'', JStr ''t1''), (''mfa_token'', JUndefined)],
                  oauth2Token = sample_oauth2 \<rparr>,
       userHash = JUndefined,
       credentials = \<lparr> username = ''user@example.com'', password = ''secret'' \<rparr>,
       listeners = Map.empty,
       url = sample_urls ''garmin.com'' \<rparr>"

definition fresh_client :: GarminConnect where
  "fresh_client =
     \<lparr> client = \<lparr> oauth1Token = JUndefined, oauth2Token = JUndefined \<rparr>,
       userHash = JUndefined,
       credentials = \<lparr> username = ''user@example.com'', password = ''secret'' \<rparr>,
       listeners = Map.empty,
       url = sample_urls ''garmin.com'' \<rparr>"

text \<open>A disk with a home directory, and one that also has a token directory holding
  only the first token file.\<close>

definition sample_disk :: filesystem where
  "sample_disk = [[] \<mapsto> Dir, [''home''] \<mapsto> Dir]"

definition half_disk :: filesystem where
  "half_disk = [[] \<mapsto> Dir, [''home''] \<mapsto> Dir, [''home'', ''tokens''] \<mapsto> Dir,
                [''home'', ''tokens'', ''oauth1_token.json''] \<mapsto> File sample_oauth1_text]"

definition sample_world :: world where
  "sample_world = \<lparr> disk = sample_disk, calls = [], raised = [] \<rparr>"

definition full_disk :: filesystem where
  "full_disk = half_disk([''home'', ''tokens'', ''oauth2_token.json''] \<mapsto> File sample_oauth2_text)"

definition failing_env :: env where
  "failing_env = sample_env\<lparr>http := failing_http\<rparr>"

section \<open>Two relations between an operation's outcome and its start\<close>

text \<open>
  \<open>with_listeners l m\<close> is the outcome \<open>m\<close> with the listeners of its client object
  replaced by \<open>l\<close>. \<open>traced w m\<close> says of an outcome \<open>m\<close> reached from the world \<open>w\<close>
  that the errors thrown so far only grew, that a result comes with no error thrown on the
  way, and that a failure is the last error thrown.
\<close>

definition with_listeners :: "Listeners \<Rightarrow> 'a outcome \<Rightarrow> 'a outcome" where
  "with_listeners l m = (case m of (r, gc, w) \<Rightarrow> (r, gc\<lparr>listeners := l\<rparr>, w))"

definition traced :: "world \<Rightarrow> 'a outcome \<Rightarrow> bool" where
  "traced w m =
     (case m of (r, gc', w') \<Rightarrow>
        \<exists>new. raised w' = raised w @ new
              \<and> (case r of Inl e \<Rightarrow> new \<noteq> [] \<and> last new = e | Inr v \<Rightarrow> new = []))"

named_theorems frame

named_theorems traces


section \<open>Facts about paths and files\<close>

lemmas sample_defs = sample_env_def sample_client_def fresh_client_def sparse_client_def
  sample_world_def sample_disk_def half_disk_def full_disk_def sample_oauth1_def sample_oauth2_def
  sample_oauth1_text_def sample_oauth2_text_def

lemma path_join_neq_dir [simp]: "path_join d a \<noteq> d" "d \<noteq> path_join d a"
  by (simp_all add: path_join_def)

lemma path_join_eq [simp]: "(path_join d a = path_join d b) = (a = b)"
  by (simp add: path_join_def)

lemma butlast_path_join [simp]: "butlast (path_join d a) = d" "path_join d a \<noteq> []"
  by (simp_all add: path_join_def)

lemma checkIsDirectory_iff: "checkIsDirectory fs p = (fs p = Some Dir)"
  by (auto simp: checkIsDirectory_def existsSync_def lstatSync_isDirectory_def)

lemma createDirectory_Inr: "createDirectory p fs = Inr fs' \<Longrightarrow> fs' = fs(p \<mapsto> Dir)"
  by (auto simp: createDirectory_def mkdirSync_def split: if_splits option.splits)

lemma createDirectory_free:
  "fs p = None \<Longrightarrow> p \<noteq> [] \<Longrightarrow> fs (butlast p) = Some Dir \<Longrightarrow>
   createDirectory p fs = Inr (fs(p \<mapsto> Dir))"
  by (simp add: createDirectory_def mkdirSync_def parent_error_def)

lemma createDirectory_orphan:
  "fs p = None \<Longrightarrow> p \<noteq> [] \<Longrightarrow> fs (butlast p) = None \<Longrightarrow>
   createDirectory p fs = Inl (SystemError ENOENT ''mkdir'' p)"
  by (simp add: createDirectory_def mkdirSync_def parent_error_def)

lemma writeToFile_Inr:
  "writeToFile p v fs = Inr fs' \<Longrightarrow> \<exists>bytes. data_bytes v = Some bytes \<and> fs' = fs(p \<mapsto> File bytes)"
  by (auto simp: writeToFile_def writeFileSync_def split: if_splits option.splits)

lemma writeToFile_JStr_Inr: "writeToFile p (JStr s) fs = Inr fs' \<Longrightarrow> fs' = fs(p \<mapsto> File s)"
  by (auto dest: writeToFile_Inr)

lemma writeToFile_in_dir:
  "fs d = Some Dir \<Longrightarrow> fs (path_join d a) \<noteq> Some Dir \<Longrightarrow> data_bytes v = Some bytes \<Longrightarrow>
   writeToFile (path_join d a) v fs = Inr (fs(path_join d a \<mapsto> File bytes))"
  by (simp add: writeToFile_def writeFileSync_def parent_error_def)

lemma readFileSync_File: "fs p = Some (File s) \<Longrightarrow> readFileSync fs p = Inr s"
  by (simp add: readFileSync_def)


lemma directory_step_dir:
  "(if \<not> checkIsDirectory fs d then createDirectory d fs else Inr fs) = Inr d1 \<Longrightarrow>
   d1 d = Some Dir"
  by (cases "checkIsDirectory fs d") (auto dest: createDirectory_Inr simp: checkIsDirectory_iff)


lemma throw_parts [simp]:
  "fst (throw e gc w) = Inl e" "fst (snd (throw e gc w)) = gc"
  "disk (snd (snd (throw e gc w))) = disk w" "calls (snd (snd (throw e gc w))) = calls w"
  "throw e gc w \<noteq> (Inr v, gc', w')"
  by (simp_all add: throw_def)

section \<open>Saving and loading the token store\<close>

lemma export_cases:
  obtains (no_directory) e where
      "(if \<not> checkIsDirectory (disk w) dir then createDirectory dir (disk w) else Inr (disk w)) = Inl e"
      "exportTokenToFile E dir gc w = throw e gc w"
  | (no_oauth1) d1 e where
      "(if \<not> checkIsDirectory (disk w) dir then createDirectory dir (disk w) else Inr (disk w)) = Inr d1"
      "(if truthy (oauth1Token (client gc))
        then writeToFile (path_join dir ''oauth1_token.json'')
               (JStr (JSON_stringify E (oauth1Token (client gc)))) d1
        else Inr d1) = Inl e"
      "exportTokenToFile E dir gc w = throw e gc (w\<lparr>disk := d1\<rparr>)"
  | (no_oauth2) d1 d2 e where
      "(if \<not> checkIsDirectory (disk w) dir then createDirectory dir (disk w) else Inr (disk w)) = Inr d1"
      "(if truthy (oauth1Token (client gc))
        then writeToFile (path_join dir ''oauth1_token.json'')
               (JStr (JSON_stringify E (oauth1Token (client gc)))) d1
        else Inr d1) = Inr d2"
      "(if truthy (oauth2Token (client gc))
        then writeToFile (path_join dir ''oauth2_token.json'')
               (JStr (JSON_stringify E (oauth2Token (client gc)))) d2
        else Inr d2) = Inl e"
      "exportTokenToFile E dir gc w = throw e gc (w\<lparr>disk := d2\<rparr>)"
  | (saved) d1 d2 d3 where
      "(if \<not> checkIsDirectory (disk w) dir then createDirectory dir (disk w) else Inr (disk w)) = Inr d1"
      "(if truthy (oauth1Token (client gc))
        then writeToFile (path_join dir ''oauth1_token.json'')
               (JStr (JSON_stringify E (oauth1Token (client gc)))) d1
        else Inr d1) = Inr d2"
      "(if truthy (oauth2Token (client gc))
        then writeToFile (path_join dir ''oauth2_token.json'')
               (JStr (JSON_stringify E (oauth2Token (client gc)))) d2
        else Inr d2) = Inr d3"
      "exportTokenToFile E dir gc w = (Inr (), gc, w\<lparr>disk := d3\<rparr>)"
proof (cases "if \<not> checkIsDirectory (disk w) dir then createDirectory dir (disk w) else Inr (disk w)")
  case (Inl e)
  then show ?thesis by (intro no_directory[of e]) (simp_all add: exportTokenToFile_def)
next
  case d1: (Inr d1)
  show ?thesis
  proof (cases "if truthy (oauth1Token (client gc))
        then writeToFile (path_join dir ''oauth1_token.json'')
               (JStr (JSON_stringify E (oauth1Token (client gc)))) d1
        else Inr d1")
    case (Inl e)
    with d1 show ?thesis by (intro no_oauth1[of d1 e]) (simp_all add: exportTokenToFile_def)
  next
    case d2: (Inr d2)
    show ?thesis
    proof (cases "if truthy (oauth2Token (client gc))
        then writeToFile (path_join dir ''oauth2_token.json'')
               (JStr (JSON_stringify E (oauth2Token (client gc)))) d2
        else Inr d2")
      case (Inl e)
      with d1 d2 show ?thesis by (intro no_oauth2[of d1 d2 e]) (simp_all add: exportTokenToFile_def)
    next
      case (Inr d3)
      with d1 d2 show ?thesis by (intro saved[of d1 d2 d3]) (simp_all add: exportTokenToFile_def)
    qed
  qed
qed

lemma export_success_disk:
  assumes "exportTokenToFile E dir gc w = (Inr u, gc', w')"
    and "truthy (oauth1Token (client gc))" and "truthy (oauth2Token (client gc))"
  shows "disk w' dir = Some Dir"
    and "disk w' (path_join dir ''oauth1_token.json'') = Some (File (JSON_stringify E (oauth1Token (client gc))))"
    and "disk w' (path_join dir ''oauth2_token.json'') = Some (File (JSON_stringify E (oauth2Token (client gc))))"
proof -
  from assms(1) obtain d1 d2 d3 where
    d1: "(if \<not> checkIsDirectory (disk w) dir then createDirectory dir (disk w) else Inr (disk w)) = Inr d1"
    and d2: "(if truthy (oauth1Token (client gc))
        then writeToFile (path_join dir ''oauth1_token.json'')
               (JStr (JSON_stringify E (oauth1Token (client gc)))) d1
        else Inr d1) = Inr d2"
    and d3: "(if truthy (oauth2Token (client gc))
        then writeToFile (path_join dir ''oauth2_token.json'')
               (JStr (JSON_stringify E (oauth2Token (client gc)))) d2
        else Inr d2) = Inr d3"
    and w': "w' = w\<lparr>disk := d3\<rparr>"
    by (cases rule: export_cases[where w=w and dir=dir and gc=gc and E=E]) simp_all
  from d1 have a: "d1 dir = Some Dir" by (rule directory_step_dir)
  from d2 assms(2) have b: "d2 = d1(path_join dir ''oauth1_token.json'' \<mapsto>
      File (JSON_stringify E (oauth1Token (client gc))))"
    by (simp add: writeToFile_JStr_Inr)
  from d3 assms(3) have c: "d3 = d2(path_join dir ''oauth2_token.json'' \<mapsto>
      File (JSON_stringify E (oauth2Token (client gc))))"
    by (simp add: writeToFile_JStr_Inr)
  show "disk w' dir = Some Dir" using a b c w' by simp
  show "disk w' (path_join dir ''oauth1_token.json'') = Some (File (JSON_stringify E (oauth1Token (client gc))))"
    using b c w' by simp
  show "disk w' (path_join dir ''oauth2_token.json'') = Some (File (JSON_stringify E (oauth2Token (client gc))))"
    using c w' by simp
qed

lemma load_from_files:
  assumes "disk w dir = Some Dir"
    and "disk w (path_join dir ''oauth1_token.json'') = Some (File text1)"
    and "disk w (path_join dir ''oauth2_token.json'') = Some (File text2)"
  shows "loadTokenByFile E dir gc w =
     (case JSON_parse E text1 of
        Inl e \<Rightarrow> throw e gc w
      | Inr t1 \<Rightarrow>
          (case JSON_parse E text2 of
             Inl e \<Rightarrow> throw e (gc\<lparr>client := (client gc)\<lparr>oauth1Token := t1\<rparr>\<rparr>) w
           | Inr t2 \<Rightarrow> (Inr (), loadToken t1 t2 gc, w)))"
  using assms
  by (simp add: loadTokenByFile_def loadToken_def Let_def checkIsDirectory_iff readFileSync_File
      split: sum.splits)


lemma sample_json:
  "json_text sample_oauth1 = sample_oauth1_text"
  "json_text sample_oauth2 = sample_oauth2_text"
  "json_read sample_oauth1_text = Inr sample_oauth1"
  "json_read sample_oauth2_text = Inr sample_oauth2"
  by code_simp+







text \<open>
  Claim C3. \<open>exportToken\<close> throws the error \<open>exportToken: Token not found\<close> exactly when
  one of the two tokens is falsy (absent), and it returns the pair of the two stored tokens
  exactly when both are present: it does one or the other.
\<close>

theorem exportToken_token_not_found:
  "(exportToken gc = Inl (Error ''exportToken: Token not found''))
     = (\<not> truthy (oauth1Token (client gc)) \<or> \<not> truthy (oauth2Token (client gc)))
   \<and> (exportToken gc = Inr \<lparr>oauth1 = oauth1Token (client gc), oauth2 = oauth2Token (client gc)\<rparr>)
     = (truthy (oauth1Token (client gc)) \<and> truthy (oauth2Token (client gc)))"
  by (cases "truthy (oauth1Token (client gc))"; cases "truthy (oauth2Token (client gc))")
     (simp_all add: exportToken_def)

theorem exportToken_token_not_found_witness:
  "truthy (oauth1Token (client sample_client)) \<and> truthy (oauth2Token (client sample_client))
   \<and> exportToken sample_client = Inr \<lparr>oauth1 = sample_oauth1, oauth2 = sample_oauth2\<rparr>
   \<and> \<not> truthy (oauth1Token (client (loadToken JUndefined sample_oauth2 sample_client)))
   \<and> exportToken (loadToken JUndefined sample_oauth2 sample_client)
       = Inl (Error ''exportToken: Token not found'')
   \<and> \<not> truthy (oauth2Token (client (loadToken sample_oauth1 JNull sample_client)))
   \<and> exportToken (loadToken sample_oauth1 JNull sample_client)
       = Inl (Error ''exportToken: Token not found'')"
  using exportToken_token_not_found[of sample_client]
    exportToken_token_not_found[of "loadToken JUndefined sample_oauth2 sample_client"]
    exportToken_token_not_found[of "loadToken sample_oauth1 JNull sample_client"]
  by (simp add: sample_client_def loadToken_def sample_oauth1_def sample_oauth2_def)







text \<open>
  Claim C2, as corrected. \<open>loadTokenByFile\<close> throws \<open>Directory not found\<close> when the path is
  no directory, and leaves the client object as it was when that happens or when the first
  token file cannot be read or parsed. When the first file is read and parsed and the second
  cannot be read or parsed, it throws that error and leaves the client object with its
  OAuth1 token replaced by the token parsed from the first file, and its OAuth2 token as it
  was. Whenever it throws, the disk and the calls are unchanged, the error is the one error
  thrown, and nothing but the OAuth1 token of the object can differ. When it returns, both
  tokens are the values parsed from the two files.
\<close>

theorem loadTokenByFile_failure:
  "(\<not> checkIsDirectory (disk w) dirPath \<longrightarrow>
      loadTokenByFile E dirPath gc w =
        (Inl (Error (''loadTokenByFile: Directory not found: '' @ path_string dirPath)), gc,
         w\<lparr>raised := raised w @ [Error (''loadTokenByFile: Directory not found: '' @ path_string dirPath)]\<rparr>))
   \<and> (\<forall>e. checkIsDirectory (disk w) dirPath
          \<and> readFileSync (disk w) (path_join dirPath ''oauth1_token.json'') = Inl e \<longrightarrow>
        loadTokenByFile E dirPath gc w = (Inl e, gc, w\<lparr>raised := raised w @ [e]\<rparr>))
   \<and> (\<forall>e text. checkIsDirectory (disk w) dirPath
          \<and> readFileSync (disk w) (path_join dirPath ''oauth1_token.json'') = Inr text
          \<and> JSON_parse E text = Inl e \<longrightarrow>
        loadTokenByFile E dirPath gc w = (Inl e, gc, w\<lparr>raised := raised w @ [e]\<rparr>))
   \<and> (\<forall>e text1 t1. checkIsDirectory (disk w) dirPath
          \<and> readFileSync (disk w) (path_join dirPath ''oauth1_token.json'') = Inr text1
          \<and> JSON_parse E text1 = Inr t1
          \<and> readFileSync (disk w) (path_join dirPath ''oauth2_token.json'') = Inl e \<longrightarrow>
        loadTokenByFile E dirPath gc w =
          (Inl e, gc\<lparr>client := (client gc)\<lparr>oauth1Token := t1\<rparr>\<rparr>, w\<lparr>raised := raised w @ [e]\<rparr>))
   \<and> (\<forall>e text1 t1 text2. checkIsDirectory (disk w) dirPath
          \<and> readFileSync (disk w) (path_join dirPath ''oauth1_token.json'') = Inr text1
          \<and> JSON_parse E text1 = Inr t1
          \<and> readFileSync (disk w) (path_join dirPath ''oauth2_token.json'') = Inr text2
          \<and> JSON_parse E text2 = Inl e \<longrightarrow>
        loadTokenByFile E dirPath gc w =
          (Inl e, gc\<lparr>client := (client gc)\<lparr>oauth1Token := t1\<rparr>\<rparr>, w\<lparr>raised := raised w @ [e]\<rparr>))
   \<and> (\<forall>e gc' w'. loadTokenByFile E dirPath gc w = (Inl e, gc', w') \<longrightarrow>
        w' = w\<lparr>raised := raised w @ [e]\<rparr> \<and> oauth2Token (client gc') = oauth2Token (client gc)
        \<and> gc' = gc\<lparr>client := (client gc)\<lparr>oauth1Token := oauth1Token (client gc')\<rparr>\<rparr>)
   \<and> (\<forall>gc' w'. loadTokenByFile E dirPath gc w = (Inr (), gc', w') \<longrightarrow>
        w' = w
        \<and> (\<exists>text1 text2 t1 t2.
              readFileSync (disk w) (path_join dirPath ''oauth1_token.json'') = Inr text1
              \<and> JSON_parse E text1 = Inr t1
              \<and> readFileSync (disk w) (path_join dirPath ''oauth2_token.json'') = Inr text2
              \<and> JSON_parse E text2 = Inr t2
              \<and> gc' = loadToken t1 t2 gc))"
  by (auto simp: loadTokenByFile_def loadToken_def Let_def throw_def split: sum.splits if_splits)

theorem loadTokenByFile_failure_witness:
  "\<not> checkIsDirectory (disk sample_world) [''home'', ''tokens'']
   \<and> loadTokenByFile sample_env [''home'', ''tokens''] fresh_client sample_world =
       (Inl (Error ''loadTokenByFile: Directory not found: /home/tokens''), fresh_client,
        sample_world\<lparr>raised := [Error ''loadTokenByFile: Directory not found: /home/tokens'']\<rparr>)
   \<and> checkIsDirectory half_disk [''home'', ''tokens'']
   \<and> readFileSync half_disk [''home'', ''tokens'', ''oauth1_token.json''] = Inr sample_oauth1_text
   \<and> JSON_parse sample_env sample_oauth1_text = Inr sample_oauth1
   \<and> readFileSync half_disk [''home'', ''tokens'', ''oauth2_token.json'']
       = Inl (SystemError ENOENT ''open'' [''home'', ''tokens'', ''oauth2_token.json''])
   \<and> loadTokenByFile sample_env [''home'', ''tokens''] sample_client
        \<lparr>disk = half_disk, calls = [], raised = []\<rparr> =
       (Inl (SystemError ENOENT ''open'' [''home'', ''tokens'', ''oauth2_token.json'']),
        sample_client\<lparr>client := (client sample_client)\<lparr>oauth1Token := sample_oauth1\<rparr>\<rparr>,
        \<lparr>disk = half_disk, calls = [],
         raised = [SystemError ENOENT ''open'' [''home'', ''tokens'', ''oauth2_token.json'']]\<rparr>)
   \<and> loadTokenByFile sample_env [''home'', ''tokens''] fresh_client
        \<lparr>disk = full_disk, calls = [], raised = []\<rparr> =
       (Inr (), loadToken sample_oauth1 sample_oauth2 fresh_client,
        \<lparr>disk = full_disk, calls = [], raised = []\<rparr>)"
proof -
  have d: "\<not> checkIsDirectory (disk sample_world) [''home'', ''tokens'']"
    by (simp add: sample_world_def sample_disk_def checkIsDirectory_iff)
  from loadTokenByFile_failure[of sample_world "[''home'', ''tokens'']" sample_env fresh_client]
  have "\<not> checkIsDirectory (disk sample_world) [''home'', ''tokens''] \<longrightarrow>
      loadTokenByFile sample_env [''home'', ''tokens''] fresh_client sample_world =
        (Inl (Error (''loadTokenByFile: Directory not found: '' @ path_string [''home'', ''tokens''])),
         fresh_client,
         sample_world\<lparr>raised := raised sample_world
            @ [Error (''loadTokenByFile: Directory not found: '' @ path_string [''home'', ''tokens''])]\<rparr>)"
    by (rule conjunct1)
  with d have 1: "loadTokenByFile sample_env [''home'', ''tokens''] fresh_client sample_world =
       (Inl (Error ''loadTokenByFile: Directory not found: /home/tokens''), fresh_client,
        sample_world\<lparr>raised := [Error ''loadTokenByFile: Directory not found: /home/tokens'']\<rparr>)"
    by (simp add: path_string_def sample_world_def)
  have h: "checkIsDirectory half_disk [''home'', ''tokens'']"
    "readFileSync half_disk [''home'', ''tokens'', ''oauth1_token.json''] = Inr sample_oauth1_text"
    "JSON_parse sample_env sample_oauth1_text = Inr sample_oauth1"
    "readFileSync half_disk [''home'', ''tokens'', ''oauth2_token.json'']
       = Inl (SystemError ENOENT ''open'' [''home'', ''tokens'', ''oauth2_token.json''])"
    by (simp_all add: checkIsDirectory_iff half_disk_def readFileSync_def sample_env_def sample_json)
  note T = loadTokenByFile_failure[of "\<lparr>disk = half_disk, calls = [], raised = []\<rparr>"
      "[''home'', ''tokens'']" sample_env sample_client,
      THEN conjunct2, THEN conjunct2, THEN conjunct2, THEN conjunct1, rule_format]
  from T[where ?text1.0 = sample_oauth1_text and ?t1.0 = sample_oauth1
      and e = "SystemError ENOENT ''open'' [''home'', ''tokens'', ''oauth2_token.json'']"] h
  have 2: "loadTokenByFile sample_env [''home'', ''tokens''] sample_client
        \<lparr>disk = half_disk, calls = [], raised = []\<rparr> =
       (Inl (SystemError ENOENT ''open'' [''home'', ''tokens'', ''oauth2_token.json'']),
        sample_client\<lparr>client := (client sample_client)\<lparr>oauth1Token := sample_oauth1\<rparr>\<rparr>,
        \<lparr>disk = half_disk, calls = [],
         raised = [SystemError ENOENT ''open'' [''home'', ''tokens'', ''oauth2_token.json'']]\<rparr>)"
    by (simp add: path_join_def)
  have 3: "loadTokenByFile sample_env [''home'', ''tokens''] fresh_client
        \<lparr>disk = full_disk, calls = [], raised = []\<rparr> =
       (Inr (), loadToken sample_oauth1 sample_oauth2 fresh_client,
        \<lparr>disk = full_disk, calls = [], raised = []\<rparr>)"
    by (subst load_from_files[where ?text1.0 = sample_oauth1_text and ?text2.0 = sample_oauth2_text])
       (simp_all add: path_join_def sample_env_def sample_json full_disk_def half_disk_def)
  from d 1 h 2 3 show ?thesis by blast
qed

text \<open>
  With the first token file in place and the second missing, the call throws and the
  object that had no token is left holding an OAuth1 token.
\<close>

theorem loadTokenByFile_partial_counterexample:
  "loadTokenByFile sample_env [''home'', ''tokens''] fresh_client
      \<lparr>disk = half_disk, calls = [], raised = []\<rparr>
     = (Inl (SystemError ENOENT ''open'' [''home'', ''tokens'', ''oauth2_token.json'']),
        fresh_client\<lparr>client := \<lparr>oauth1Token = sample_oauth1, oauth2Token = JUndefined\<rparr>\<rparr>,
        \<lparr>disk = half_disk, calls = [],
         raised = [SystemError ENOENT ''open'' [''home'', ''tokens'', ''oauth2_token.json'']]\<rparr>)
   \<and> oauth1Token (client fresh_client) = JUndefined
   \<and> fresh_client\<lparr>client := \<lparr>oauth1Token = sample_oauth1, oauth2Token = JUndefined\<rparr>\<rparr> \<noteq> fresh_client"
  by (simp add: loadTokenByFile_def checkIsDirectory_iff half_disk_def readFileSync_def
      path_join_def sample_env_def fresh_client_def sample_json throw_def)
     (simp add: sample_oauth1_def)

section \<open>Constructing a client object\<close>

text \<open>
  Claim C7. With no credentials argument the constructor takes the credentials of the
  module's configuration; credentials that are passed take precedence over it; with
  neither (the configuration file could not be required, or there is none) it throws the
  error \<open>Missing credentials\<close>, and it throws that error in no other case.
\<close>

theorem constructor_credentials:
  "(\<exists>gc. new_GarminConnect E (config (Inr c)) None domain = Inr gc \<and> credentials gc = c)
   \<and> (\<exists>gc. new_GarminConnect E cfg (Some c') domain = Inr gc \<and> credentials gc = c')
   \<and> new_GarminConnect E (config (Inl e)) None domain = Inl (Error ''Missing credentials'')
   \<and> new_GarminConnect E None None domain = Inl (Error ''Missing credentials'')
   \<and> (new_GarminConnect E cfg given domain = Inl (Error ''Missing credentials''))
       = (cfg = None \<and> given = None)"
  by (cases cfg; cases given) (simp_all add: new_GarminConnect_def config_def Let_def)

theorem constructor_credentials_witness:
  "new_GarminConnect sample_env
     (config (Inr \<lparr>username = ''configured@example.com'', password = ''from file''\<rparr>))
     (Some \<lparr>username = ''user@example.com'', password = ''secret''\<rparr>) None
     = Inr fresh_client
   \<and> credentials fresh_client = \<lparr>username = ''user@example.com'', password = ''secret''\<rparr>
   \<and> new_GarminConnect sample_env
         (config (Inl (Error ''Cannot find module /garmin.config.json''))) None None
     = Inl (Error ''Missing credentials'')"
proof -
  have 1: "new_GarminConnect sample_env
     (config (Inr \<lparr>username = ''configured@example.com'', password = ''from file''\<rparr>))
     (Some \<lparr>username = ''user@example.com'', password = ''secret''\<rparr>) None
     = Inr fresh_client"
    by (simp add: new_GarminConnect_def sample_env_def fresh_client_def)
  have 2: "credentials fresh_client = \<lparr>username = ''user@example.com'', password = ''secret''\<rparr>"
    by (simp add: fresh_client_def)
  from constructor_credentials[where E = sample_env and domain = None
      and e = "Error ''Cannot find module /garmin.config.json''"]
  have 3: "new_GarminConnect sample_env
         (config (Inl (Error ''Cannot find module /garmin.config.json''))) None None
     = Inl (Error ''Missing credentials'')"
    by blast
  from 1 2 3 show ?thesis by blast
qed

section \<open>Uploads and downloads\<close>

section \<open>Uploads and downloads\<close>

lemmas transfer_defs = downloadOriginalActivityData_def download_request_def uploadActivity_def
  client_request_def client_get_def client_post_def lift_def throw_def sample_http_def
  failing_http_def failing_env_def sample_urls_def toLowerCase_def lower_char_def params_def

lemma and_then_Inl [simp]: "and_then (Inl e, gc, w) f = (Inl e, gc, w)"
  by (simp add: and_then_def)

lemma and_then_Inr [simp]: "and_then (Inr v, gc, w) f = f v gc w"
  by (simp add: and_then_def)

lemma and_then_throw [simp]: "and_then (throw e gc w) f = throw e gc w"
  by (simp add: throw_def)

lemma download_request_None:
  "(download_request E u i t = None) = (t \<notin> {''tcx'', ''gpx'', ''kml'', ''zip''})"
  by (simp add: download_request_def)

lemma sample_decimal: "decimal 123 = ''123''"
  by (simp add: decimal_def digit_char_def)

text \<open>
  Claim C5, as corrected. \<open>uploadActivity\<close> lower-cases the format (or, for an empty
  format, the file's extension). When the result is not a value of \<open>UploadFileType\<close> it
  throws \<open>uploadActivity - Invalid format\<close>, the one error thrown, and leaves the client
  object, the disk and the calls made to the HTTP client as they were. A format left out
  is \<open>fit\<close>.
\<close>

theorem uploadActivity_invalid_format:
  "(toLowerCase (if format \<noteq> [] then format else extname E file) \<notin> set (UploadFileType E) \<longrightarrow>
      uploadActivity E file (Some format) gc w =
        (Inl (Error (''uploadActivity - Invalid format: '' @ format)), gc,
         w\<lparr>raised := raised w @ [Error (''uploadActivity - Invalid format: '' @ format)]\<rparr>)
      \<and> calls (snd (snd (uploadActivity E file (Some format) gc w))) = calls w
      \<and> disk (snd (snd (uploadActivity E file (Some format) gc w))) = disk w)
   \<and> uploadActivity E file None gc w = uploadActivity E file (Some ''fit'') gc w"
  by (simp add: uploadActivity_def Let_def throw_def)

theorem uploadActivity_invalid_format_witness:
  "toLowerCase ''xyz'' \<notin> set (UploadFileType sample_env)
   \<and> uploadActivity sample_env ''ride.fit'' (Some ''xyz'') sample_client sample_world =
       (Inl (Error ''uploadActivity - Invalid format: xyz''), sample_client,
        \<lparr>disk = sample_disk, calls = [], raised = [Error ''uploadActivity - Invalid format: xyz'']\<rparr>)
   \<and> calls (snd (snd (uploadActivity sample_env ''ride.fit'' (Some ''xyz'') sample_client sample_world)))
       = []"
proof -
  have n: "toLowerCase ''xyz'' \<notin> set (UploadFileType sample_env)"
    by (simp add: toLowerCase_def lower_char_def sample_env_def)
  note T = uploadActivity_invalid_format[of "''xyz''" sample_env "''ride.fit''" sample_client
      sample_world, THEN conjunct1, rule_format]
  from T n have 1: "uploadActivity sample_env ''ride.fit'' (Some ''xyz'') sample_client sample_world =
       (Inl (Error ''uploadActivity - Invalid format: xyz''), sample_client,
        \<lparr>disk = sample_disk, calls = [], raised = [Error ''uploadActivity - Invalid format: xyz'']\<rparr>)"
    by (simp add: sample_world_def)
  from n 1 show ?thesis by simp
qed

text \<open>
  The format \<open>FIT\<close> is no value of \<open>UploadFileType\<close>, and the upload is posted.
\<close>

theorem uploadActivity_case_counterexample:
  "''FIT'' \<notin> set (UploadFileType sample_env)
   \<and> uploadActivity sample_env ''ride.fit'' (Some ''FIT'') sample_client sample_world =
       (Inr (JObj []), sample_client,
        \<lparr>disk = sample_disk,
          calls = [(ClientPost ''https://connectapi.garmin.com/upload-service/upload/.FIT''
                      (JObj [(''userfile'', JObj [(''path'', JStr ''ride.fit'')])])
                      (JObj [(''headers'',
                              JObj [(''Content-Type'', JStr ''multipart/form-data; boundary=sample'')])]),
                    Inr (JObj []))],
          raised = []\<rparr>)"
  by (simp add: uploadActivity_def Let_def client_post_def client_request_def lift_def sample_env_def
      toLowerCase_def lower_char_def sample_client_def sample_world_def sample_urls_def sample_http_def)

text \<open>
  Claim C6, as corrected. Take an activity identifier other than 0 and a type among tcx,
  gpx, kml and zip. When the directory exists, or is absent with its parent a directory,
  the target is no directory and the HTTP client answers with a string or a buffer,
  \<open>downloadOriginalActivityData\<close> returns, having created the directory if it was
  absent, made the one request of that type (with the response type \<open>arraybuffer\<close>
  exactly for zip, with no configuration otherwise) and written the body to the file named
  by the identifier, a dot and the type, in the directory. When the directory is absent
  and so is its parent, the call throws the error of \<open>mkdir\<close>: nothing is created or
  written and no request is made.
\<close>

theorem downloadOriginalActivityData_writes:
  assumes "activityId \<noteq> 0"
    and "t \<in> {''tcx'', ''gpx'', ''kml'', ''zip''}"
    and "target = path_join dir (Number_toString E activityId @ ''.'' @ t)"
    and "c = ClientGet
               ((if t = ''tcx'' then DOWNLOAD_TCX (url gc) else if t = ''gpx'' then DOWNLOAD_GPX (url gc)
                 else if t = ''kml'' then DOWNLOAD_KML (url gc) else DOWNLOAD_ZIP (url gc))
                @ Number_toString E activityId)
               (if t = ''zip'' then JObj [(''responseType'', JStr ''arraybuffer'')] else JUndefined)"
    and "d1 = (if disk w dir = Some Dir then disk w else (disk w)(dir \<mapsto> Dir))"
  shows "((disk w dir = Some Dir \<or> (disk w dir = None \<and> dir \<noteq> [] \<and> disk w (butlast dir) = Some Dir))
          \<and> disk w target \<noteq> Some Dir
          \<and> http E (w\<lparr>disk := d1\<rparr>) c (client gc) = (Inr body, client')
          \<and> data_bytes body = Some bytes \<longrightarrow>
          downloadOriginalActivityData E activityId dir (Some t) gc w =
            (Inr (), gc\<lparr>client := client'\<rparr>,
             \<lparr>disk = d1(target \<mapsto> File bytes), calls = calls w @ [(c, Inr body)],
              raised = raised w\<rparr>))
       \<and> (disk w dir = None \<and> dir \<noteq> [] \<and> disk w (butlast dir) = None \<longrightarrow>
          downloadOriginalActivityData E activityId dir (Some t) gc w =
            (Inl (SystemError ENOENT ''mkdir'' dir), gc,
             w\<lparr>raised := raised w @ [SystemError ENOENT ''mkdir'' dir]\<rparr>))"
proof (intro conjI impI)
  assume a: "(disk w dir = Some Dir \<or> (disk w dir = None \<and> dir \<noteq> [] \<and> disk w (butlast dir) = Some Dir))
          \<and> disk w target \<noteq> Some Dir
          \<and> http E (w\<lparr>disk := d1\<rparr>) c (client gc) = (Inr body, client')
          \<and> data_bytes body = Some bytes"
  have req: "download_request E (url gc) activityId t = Some c"
    using assms(2,4) by (auto simp: download_request_def)
  have dir1: "(if \<not> checkIsDirectory (disk w) dir then createDirectory dir (disk w) else Inr (disk w)) = Inr d1"
    using assms(5) a by (auto simp: checkIsDirectory_iff createDirectory_free)
  have d1dir: "d1 dir = Some Dir"
    using assms(5) by simp
  have d1t: "d1 target \<noteq> Some Dir"
    using assms(3,5) a by simp
  have wr: "writeToFile target body d1 = Inr (d1(target \<mapsto> File bytes))"
    unfolding assms(3) using d1dir d1t a unfolding assms(3) by (intro writeToFile_in_dir) simp_all
  from a have h: "http E (w\<lparr>disk := d1\<rparr>) c (client gc) = (Inr body, client')"
    by simp
  show "downloadOriginalActivityData E activityId dir (Some t) gc w =
            (Inr (), gc\<lparr>client := client'\<rparr>,
             \<lparr>disk = d1(target \<mapsto> File bytes), calls = calls w @ [(c, Inr body)],
              raised = raised w\<rparr>)"
    using assms(1) req h wr unfolding assms(3)
    by (simp add: downloadOriginalActivityData_def dir1 client_request_def lift_def)
next
  assume a: "disk w dir = None \<and> dir \<noteq> [] \<and> disk w (butlast dir) = None"
  then have "createDirectory dir (disk w) = Inl (SystemError ENOENT ''mkdir'' dir)"
    by (simp add: createDirectory_orphan)
  with a assms(1) show "downloadOriginalActivityData E activityId dir (Some t) gc w =
            (Inl (SystemError ENOENT ''mkdir'' dir), gc,
             w\<lparr>raised := raised w @ [SystemError ENOENT ''mkdir'' dir]\<rparr>)"
    by (simp add: downloadOriginalActivityData_def checkIsDirectory_iff throw_def)
qed

theorem downloadOriginalActivityData_writes_witness:
  "downloadOriginalActivityData sample_env 123 [''home'', ''rides''] (Some ''zip'') sample_client sample_world =
     (Inr (), sample_client,
      \<lparr>disk = sample_disk([''home'', ''rides''] \<mapsto> Dir,
                          [''home'', ''rides'', ''123.zip''] \<mapsto> File ''PK''),
        calls = [(ClientGet ''https://connectapi.garmin.com/download-service/files/activity/123''
                    (JObj [(''responseType'', JStr ''arraybuffer'')]),
                  Inr (JBuffer ''PK''))],
        raised = []\<rparr>)
   \<and> downloadOriginalActivityData sample_env 123 [''home''] (Some ''tcx'') sample_client sample_world =
     (Inr (), sample_client,
      \<lparr>disk = sample_disk([''home'', ''123.tcx''] \<mapsto> File ''<gpx></gpx>''),
        calls = [(ClientGet ''https://connectapi.garmin.com/download-service/export/tcx/activity/123''
                    JUndefined,
                  Inr (JStr ''<gpx></gpx>''))],
        raised = []\<rparr>)
   \<and> downloadOriginalActivityData sample_env 123 [''home'', ''a'', ''b''] (Some ''zip'') sample_client
        sample_world =
     (Inl (SystemError ENOENT ''mkdir'' [''home'', ''a'', ''b'']), sample_client,
      \<lparr>disk = sample_disk, calls = [], raised = [SystemError ENOENT ''mkdir'' [''home'', ''a'', ''b'']]\<rparr>)"
proof -
  note n = sample_decimal
  have e: "Number_toString sample_env = decimal"
    by (simp add: sample_env_def)
  note T1 = downloadOriginalActivityData_writes[where activityId = 123 and t = "''zip''"
      and E = sample_env and gc = sample_client and w = sample_world and dir = "[''home'', ''rides'']"
      and body = "JBuffer ''PK''" and bytes = "''PK''" and client' = "client sample_client",
      OF _ _ refl refl refl, THEN conjunct1, rule_format]
  have 1: "downloadOriginalActivityData sample_env 123 [''home'', ''rides''] (Some ''zip'') sample_client sample_world =
     (Inr (), sample_client,
      \<lparr>disk = sample_disk([''home'', ''rides''] \<mapsto> Dir,
                          [''home'', ''rides'', ''123.zip''] \<mapsto> File ''PK''),
        calls = [(ClientGet ''https://connectapi.garmin.com/download-service/files/activity/123''
                    (JObj [(''responseType'', JStr ''arraybuffer'')]),
                  Inr (JBuffer ''PK''))],
        raised = []\<rparr>)"
    by (subst T1)
       (simp_all add: sample_defs sample_http_def sample_urls_def e n path_join_def)
  note T2 = downloadOriginalActivityData_writes[where activityId = 123 and t = "''tcx''"
      and E = sample_env and gc = sample_client and w = sample_world and dir = "[''home'']"
      and body = "JStr ''<gpx></gpx>''" and bytes = "''<gpx></gpx>''" and client' = "client sample_client",
      OF _ _ refl refl refl, THEN conjunct1, rule_format]
  have 2: "downloadOriginalActivityData sample_env 123 [''home''] (Some ''tcx'') sample_client sample_world =
     (Inr (), sample_client,
      \<lparr>disk = sample_disk([''home'', ''123.tcx''] \<mapsto> File ''<gpx></gpx>''),
        calls = [(ClientGet ''https://connectapi.garmin.com/download-service/export/tcx/activity/123''
                    JUndefined,
                  Inr (JStr ''<gpx></gpx>''))],
        raised = []\<rparr>)"
    by (subst T2)
       (simp_all add: sample_defs sample_http_def sample_urls_def e n path_join_def)
  note T3 = downloadOriginalActivityData_writes[where activityId = 123 and t = "''zip''"
      and E = sample_env and gc = sample_client and w = sample_world and dir = "[''home'', ''a'', ''b'']",
      OF _ _ refl refl refl, THEN conjunct2, rule_format]
  have 3: "downloadOriginalActivityData sample_env 123 [''home'', ''a'', ''b''] (Some ''zip'') sample_client
        sample_world =
     (Inl (SystemError ENOENT ''mkdir'' [''home'', ''a'', ''b'']), sample_client,
      \<lparr>disk = sample_disk, calls = [], raised = [SystemError ENOENT ''mkdir'' [''home'', ''a'', ''b'']]\<rparr>)"
    by (subst T3) (simp_all add: sample_world_def sample_disk_def)
  from 1 2 3 show ?thesis by blast
qed

text \<open>
  A directory that is absent, and whose parent is absent too, is not created: the call
  throws, writes no file and makes no request.
\<close>

theorem downloadOriginalActivityData_parent_counterexample:
  "(123::int) \<noteq> 0
   \<and> sample_disk [''home'', ''a'', ''b''] = None
   \<and> downloadOriginalActivityData sample_env 123 [''home'', ''a'', ''b''] (Some ''zip'') sample_client
        sample_world =
     (Inl (SystemError ENOENT ''mkdir'' [''home'', ''a'', ''b'']), sample_client,
      \<lparr>disk = sample_disk, calls = [], raised = [SystemError ENOENT ''mkdir'' [''home'', ''a'', ''b'']]\<rparr>)
   \<and> sample_disk [''home'', ''a'', ''b'', ''123.zip''] = None"
  by (simp add: downloadOriginalActivityData_def checkIsDirectory_iff createDirectory_def
      mkdirSync_def parent_error_def throw_def sample_world_def sample_disk_def)

text \<open>
  Claim C10. For an activity identifier other than 0 and a type outside tcx, gpx, kml
  and zip, \<open>downloadOriginalActivityData\<close> throws \<open>Invalid type\<close> after the directory
  check: a directory that was missing and could be created has been created, no other path
  of the disk has changed, and no call to the HTTP client has been made.
\<close>

theorem downloadOriginalActivityData_invalid_type:
  assumes "activityId \<noteq> 0"
    and "t \<notin> {''tcx'', ''gpx'', ''kml'', ''zip''}"
  shows "(checkIsDirectory (disk w) dir \<longrightarrow>
            downloadOriginalActivityData E activityId dir (Some t) gc w =
              (Inl (Error (''downloadOriginalActivityData - Invalid type: '' @ t)), gc,
               w\<lparr>raised := raised w @ [Error (''downloadOriginalActivityData - Invalid type: '' @ t)]\<rparr>))
       \<and> (\<not> checkIsDirectory (disk w) dir \<longrightarrow>
            downloadOriginalActivityData E activityId dir (Some t) gc w =
              (case createDirectory dir (disk w) of
                 Inl e \<Rightarrow> (Inl e, gc, w\<lparr>raised := raised w @ [e]\<rparr>)
               | Inr d \<Rightarrow> (Inl (Error (''downloadOriginalActivityData - Invalid type: '' @ t)),
                           gc, w\<lparr>disk := d,
                                 raised := raised w
                                   @ [Error (''downloadOriginalActivityData - Invalid type: '' @ t)]\<rparr>)))
       \<and> (disk w dir = None \<and> dir \<noteq> [] \<and> disk w (butlast dir) = Some Dir \<longrightarrow>
            downloadOriginalActivityData E activityId dir (Some t) gc w =
              (Inl (Error (''downloadOriginalActivityData - Invalid type: '' @ t)),
               gc, w\<lparr>disk := (disk w)(dir \<mapsto> Dir),
                     raised := raised w
                       @ [Error (''downloadOriginalActivityData - Invalid type: '' @ t)]\<rparr>))
       \<and> calls (snd (snd (downloadOriginalActivityData E activityId dir (Some t) gc w))) = calls w
       \<and> (\<forall>p. p \<noteq> dir \<longrightarrow>
            disk (snd (snd (downloadOriginalActivityData E activityId dir (Some t) gc w))) p = disk w p)"
  using assms download_request_None[of E "url gc" activityId t]
  by (auto simp: downloadOriginalActivityData_def checkIsDirectory_iff createDirectory_free throw_def
      split: sum.splits dest!: createDirectory_Inr)

theorem downloadOriginalActivityData_invalid_type_witness:
  "(123::int) \<noteq> 0 \<and> ''fit'' \<notin> {''tcx'', ''gpx'', ''kml'', ''zip''}
   \<and> disk sample_world [''home'', ''rides''] = None
   \<and> disk sample_world (butlast [''home'', ''rides'']) = Some Dir
   \<and> downloadOriginalActivityData sample_env 123 [''home'', ''rides''] (Some ''fit'') sample_client sample_world =
     (Inl (Error ''downloadOriginalActivityData - Invalid type: fit''), sample_client,
      \<lparr>disk = sample_disk([''home'', ''rides''] \<mapsto> Dir), calls = [],
       raised = [Error ''downloadOriginalActivityData - Invalid type: fit'']\<rparr>)
   \<and> checkIsDirectory (disk sample_world) [''home'']
   \<and> downloadOriginalActivityData sample_env 123 [''home''] (Some ''fit'') sample_client sample_world =
     (Inl (Error ''downloadOriginalActivityData - Invalid type: fit''), sample_client,
      \<lparr>disk = sample_disk, calls = [],
       raised = [Error ''downloadOriginalActivityData - Invalid type: fit'']\<rparr>)"
proof -
  have h: "(123::int) \<noteq> 0" "''fit'' \<notin> {''tcx'', ''gpx'', ''kml'', ''zip''}"
    by simp_all
  have d: "disk sample_world [''home'', ''rides''] = None"
    "disk sample_world (butlast [''home'', ''rides'']) = Some Dir"
    "checkIsDirectory (disk sample_world) [''home'']"
    by (simp_all add: sample_world_def sample_disk_def checkIsDirectory_iff)
  note T1 = downloadOriginalActivityData_invalid_type[OF h,
      of sample_world "[''home'', ''rides'']" sample_env sample_client]
  note T2 = downloadOriginalActivityData_invalid_type[OF h,
      of sample_world "[''home'']" sample_env sample_client]
  from T1 d have "downloadOriginalActivityData sample_env 123 [''home'', ''rides''] (Some ''fit'') sample_client sample_world =
     (Inl (Error (''downloadOriginalActivityData - Invalid type: '' @ ''fit'')), sample_client,
      sample_world\<lparr>disk := (disk sample_world)([''home'', ''rides''] \<mapsto> Dir),
         raised := raised sample_world @ [Error (''downloadOriginalActivityData - Invalid type: '' @ ''fit'')]\<rparr>)"
    by blast
  then have 1: "downloadOriginalActivityData sample_env 123 [''home'', ''rides''] (Some ''fit'') sample_client sample_world =
     (Inl (Error ''downloadOriginalActivityData - Invalid type: fit''), sample_client,
      \<lparr>disk = sample_disk([''home'', ''rides''] \<mapsto> Dir), calls = [],
       raised = [Error ''downloadOriginalActivityData - Invalid type: fit'']\<rparr>)"
    by (simp add: sample_world_def)
  from T2 d have "downloadOriginalActivityData sample_env 123 [''home''] (Some ''fit'') sample_client sample_world =
     (Inl (Error (''downloadOriginalActivityData - Invalid type: '' @ ''fit'')), sample_client,
      sample_world\<lparr>raised := raised sample_world
          @ [Error (''downloadOriginalActivityData - Invalid type: '' @ ''fit'')]\<rparr>)"
    by blast
  then have 2: "downloadOriginalActivityData sample_env 123 [''home''] (Some ''fit'') sample_client sample_world =
     (Inl (Error ''downloadOriginalActivityData - Invalid type: fit''), sample_client,
      \<lparr>disk = sample_disk, calls = [],
       raised = [Error ''downloadOriginalActivityData - Invalid type: fit'']\<rparr>)"
    by (simp add: sample_world_def)
  from h d 1 2 show ?thesis by simp
qed

section \<open>Every public operation\<close>

lemma throw_frame [frame]: "throw e (gc\<lparr>listeners := l\<rparr>) w = with_listeners l (throw e gc w)"
  by (simp add: throw_def with_listeners_def)

lemma lift_frame [frame]: "lift r (gc\<lparr>listeners := l\<rparr>) w = with_listeners l (lift r gc w)"
  by (simp add: lift_def throw_def with_listeners_def split: sum.splits)

lemma client_request_frame [frame]:
  "client_request E c (gc\<lparr>listeners := l\<rparr>) w = with_listeners l (client_request E c gc w)"
  by (simp add: client_request_def lift_def throw_def with_listeners_def split: prod.splits sum.splits)

lemma and_then_frame:
  assumes "m' = with_listeners l m"
    and "\<And>v gc w. f v (gc\<lparr>listeners := l\<rparr>) w = with_listeners l (f v gc w)"
  shows "and_then m' f = with_listeners l (and_then m f)"
  using assms by (auto simp: and_then_def with_listeners_def split: prod.splits sum.splits)

lemma rethrow_frame:
  "m' = with_listeners l m \<Longrightarrow> rethrow n m' = with_listeners l (rethrow n m)"
  by (auto simp: rethrow_def throw_def with_listeners_def split: prod.splits sum.splits)

lemma no_value_frame:
  "m' = with_listeners l m \<Longrightarrow> no_value m' = with_listeners l (no_value m)"
  by (auto simp: no_value_def with_listeners_def split: prod.splits sum.splits)

lemma if_frame:
  "(c \<Longrightarrow> a' = with_listeners l a) \<Longrightarrow> (\<not> c \<Longrightarrow> b' = with_listeners l b) \<Longrightarrow>
   (if c then a' else b') = with_listeners l (if c then a else b)"
  by simp

lemma pure_frame [frame]: "(r, gc\<lparr>listeners := l\<rparr>, w) = with_listeners l (r, gc, w)"
  by (simp add: with_listeners_def)

lemmas frame_intros = and_then_frame rethrow_frame no_value_frame if_frame

lemma url_listeners [simp]: "url (gc\<lparr>listeners := l\<rparr>) = url gc"
  by simp

lemma client_get_frame [frame]:
  "client_get E u cfg (gc\<lparr>listeners := l\<rparr>) w = with_listeners l (client_get E u cfg gc w)"
  by (simp add: client_get_def frame)

lemma client_post_frame [frame]:
  "client_post E u d cfg (gc\<lparr>listeners := l\<rparr>) w = with_listeners l (client_post E u d cfg gc w)"
  by (simp add: client_post_def frame)

lemma client_put_frame [frame]:
  "client_put E u d cfg (gc\<lparr>listeners := l\<rparr>) w = with_listeners l (client_put E u d cfg gc w)"
  by (simp add: client_put_def frame)

lemma client_delete_frame [frame]:
  "client_delete E u cfg (gc\<lparr>listeners := l\<rparr>) w = with_listeners l (client_delete E u cfg gc w)"
  by (simp add: client_delete_def frame)

lemma traced_pure [traces]: "traced w (Inr v, gc, w)"
  by (simp add: traced_def)

lemma traced_throw [traces]: "traced w (throw e gc w)"
  by (simp add: traced_def throw_def)

lemma traced_lift [traces]: "traced w (lift r gc w)"
  by (cases r) (simp_all add: lift_def traces)

lemma traced_calls [simp]: "traced (w\<lparr>calls := c\<rparr>) m = traced w m"
  by (simp add: traced_def)

lemma traced_disk [simp]: "traced (w\<lparr>disk := d\<rparr>) m = traced w m"
  by (simp add: traced_def)

lemma traced_client_request [traces]: "traced w (client_request E c gc w)"
proof (cases "http E w c (client gc)")
  case (Pair r client')
  have "traced (w\<lparr>calls := calls w @ [(c, r)]\<rparr>)
          (lift r (gc\<lparr>client := client'\<rparr>) (w\<lparr>calls := calls w @ [(c, r)]\<rparr>))"
    by (rule traced_lift)
  with Pair show ?thesis by (simp add: client_request_def)
qed

lemma traced_and_then:
  assumes "traced w m"
    and "\<And>v gc1 w1. m = (Inr v, gc1, w1) \<Longrightarrow> traced w1 (f v gc1 w1)"
  shows "traced w (and_then m f)"
proof (cases m)
  case (fields r gc1 w1)
  show ?thesis
  proof (cases r)
    case (Inl e)
    with fields assms(1) show ?thesis by (simp add: traced_def and_then_def)
  next
    case (Inr v)
    with fields assms(2) have c2: "traced w1 (f v gc1 w1)" by simp
    from fields Inr assms(1) have n1: "raised w1 = raised w"
      by (simp add: traced_def)
    from c2 n1 have "traced w (f v gc1 w1)"
      by (simp add: traced_def)
    with fields Inr show ?thesis by (simp add: and_then_def)
  qed
qed

lemma traced_rethrow: "traced w m \<Longrightarrow> traced w (rethrow n m)"
  by (auto simp: traced_def rethrow_def throw_def split: prod.splits sum.splits)

lemma traced_no_value: "traced w m \<Longrightarrow> traced w (no_value m)"
proof (cases m)
  case (fields r gc1 w1)
  assume "traced w m"
  with fields show ?thesis by (cases r) (auto simp: traced_def no_value_def)
qed

lemma traced_if: "(c \<Longrightarrow> traced w a) \<Longrightarrow> (\<not> c \<Longrightarrow> traced w b) \<Longrightarrow> traced w (if c then a else b)"
  by simp

lemmas traced_intros = traced_and_then traced_rethrow traced_no_value traced_if

lemma traced_client_get [traces]: "traced w (client_get E u cfg gc w)"
  by (simp add: client_get_def traces)

lemma traced_client_post [traces]: "traced w (client_post E u d cfg gc w)"
  by (simp add: client_post_def traces)

lemma traced_client_put [traces]: "traced w (client_put E u d cfg gc w)"
  by (simp add: client_put_def traces)

lemma traced_client_delete [traces]: "traced w (client_delete E u cfg gc w)"
  by (simp add: client_delete_def traces)

lemma sum_case_frame:
  "(\<And>e. r = Inl e \<Longrightarrow> a' e = with_listeners l (a e)) \<Longrightarrow>
   (\<And>v. r = Inr v \<Longrightarrow> b' v = with_listeners l (b v)) \<Longrightarrow>
   (case r of Inl e \<Rightarrow> a' e | Inr v \<Rightarrow> b' v) = with_listeners l (case r of Inl e \<Rightarrow> a e | Inr v \<Rightarrow> b v)"
  by (cases r) simp_all

lemma option_case_frame:
  "(r = None \<Longrightarrow> a' = with_listeners l a) \<Longrightarrow>
   (\<And>v. r = Some v \<Longrightarrow> b' v = with_listeners l (b v)) \<Longrightarrow>
   (case r of None \<Rightarrow> a' | Some v \<Rightarrow> b' v) = with_listeners l (case r of None \<Rightarrow> a | Some v \<Rightarrow> b v)"
  by (cases r) simp_all

lemma traced_sum_case:
  "(\<And>e. r = Inl e \<Longrightarrow> traced w (a e)) \<Longrightarrow> (\<And>v. r = Inr v \<Longrightarrow> traced w (b v)) \<Longrightarrow>
   traced w (case r of Inl e \<Rightarrow> a e | Inr v \<Rightarrow> b v)"
  by (cases r) simp_all

lemma traced_option_case:
  "(r = None \<Longrightarrow> traced w a) \<Longrightarrow> (\<And>v. r = Some v \<Longrightarrow> traced w (b v)) \<Longrightarrow>
   traced w (case r of None \<Rightarrow> a | Some v \<Rightarrow> b v)"
  by (cases r) simp_all

lemma traced_pure_disk [traces]: "traced w (Inr v, gc, w\<lparr>disk := d\<rparr>)"
  by (simp add: traced_def)

lemma traced_throw_disk [traces]: "traced w (throw e gc (w\<lparr>disk := d\<rparr>))"
  by (simp add: traced_def throw_def)

lemma traced_client_request_disk [traces]:
  "traced w (client_request E c gc (w\<lparr>disk := d\<rparr>))"
  using traced_client_request[of "w\<lparr>disk := d\<rparr>" E c gc] by simp

lemma rethrow_wrapped:
  assumes "rethrow n m = (Inl e, gc', w')" and "traced w m"
  shows "\<exists>pre inner. raised w' = raised w @ pre @ [inner, e]
           \<and> e = Error (''Error in '' @ n @ '': '' @ message inner)"
proof (cases m)
  case (fields r gc1 w1)
  show ?thesis
  proof (cases r)
    case (Inr v)
    with fields assms(1) show ?thesis by (simp add: rethrow_def)
  next
    case (Inl inner)
    with fields assms(2) obtain new where
      n: "raised w1 = raised w @ new" "new \<noteq> []" "last new = inner"
      by (auto simp: traced_def)
    then obtain pre where b: "new = pre @ [inner]"
      by (metis append_butlast_last_id)
    from fields Inl assms(1) have
      e: "e = Error (''Error in '' @ n @ '': '' @ message inner)" and w': "w' = w1\<lparr>raised := raised w1 @ [e]\<rparr>"
      by (auto simp: rethrow_def throw_def)
    from w' have "raised w' = raised w1 @ [e]"
      by simp
    then have "raised w' = raised w @ pre @ [inner, e]"
      using n(1) b by simp
    with e show ?thesis by blast
  qed
qed

lemma exportTokenToFile_frame [frame]:
  "exportTokenToFile E d (gc\<lparr>listeners := l\<rparr>) w = with_listeners l (exportTokenToFile E d gc w)"
  by (simp add: exportTokenToFile_def with_listeners_def throw_def split: sum.splits)

lemma loadTokenByFile_frame [frame]:
  "loadTokenByFile E d (gc\<lparr>listeners := l\<rparr>) w = with_listeners l (loadTokenByFile E d gc w)"
  by (simp add: loadTokenByFile_def with_listeners_def throw_def Let_def split: sum.splits)

lemma getUserSettings_frame [frame]:
  "getUserSettings E (gc\<lparr>listeners := l\<rparr>) w = with_listeners l (getUserSettings E gc w)"
  unfolding getUserSettings_def
  by ((intro frame_intros)?) (simp_all add: frame)

lemma getUserProfile_frame [frame]:
  "getUserProfile E (gc\<lparr>listeners := l\<rparr>) w = with_listeners l (getUserProfile E gc w)"
  unfolding getUserProfile_def
  by ((intro frame_intros)?) (simp_all add: frame)

lemma getActivities_frame [frame]:
  "getActivities E a b c d (gc\<lparr>listeners := l\<rparr>) w = with_listeners l (getActivities E a b c d gc w)"
  unfolding getActivities_def
  by ((intro frame_intros)?) (simp_all add: frame)

lemma getActivity_frame [frame]:
  "getActivity E i (gc\<lparr>listeners := l\<rparr>) w = with_listeners l (getActivity E i gc w)"
  unfolding getActivity_def
  by ((intro frame_intros)?) (simp_all add: frame)

lemma countActivities_frame [frame]:
  "countActivities E (gc\<lparr>listeners := l\<rparr>) w = with_listeners l (countActivities E gc w)"
  unfolding countActivities_def
  by ((intro frame_intros)?) (simp_all add: frame)

lemma getGears_frame [frame]:
  "getGears E a (gc\<lparr>listeners := l\<rparr>) w = with_listeners l (getGears E a gc w)"
  unfolding getGears_def
  by ((intro frame_intros)?) (simp_all add: frame)

lemma getActivityGear_frame [frame]:
  "getActivityGear E a (gc\<lparr>listeners := l\<rparr>) w = with_listeners l (getActivityGear E a gc w)"
  unfolding getActivityGear_def
  by ((intro frame_intros)?) (simp_all add: frame)

lemma linkActivityGear_frame [frame]:
  "linkActivityGear E a b (gc\<lparr>listeners := l\<rparr>) w = with_listeners l (linkActivityGear E a b gc w)"
  unfolding linkActivityGear_def
  by ((intro frame_intros)?) (simp_all add: frame)

lemma unlinkActivityGear_frame [frame]:
  "unlinkActivityGear E a b (gc\<lparr>listeners := l\<rparr>) w = with_listeners l (unlinkActivityGear E a b gc w)"
  unfolding unlinkActivityGear_def
  by ((intro frame_intros)?) (simp_all add: frame)

lemma downloadOriginalActivityData_frame [frame]:
  "downloadOriginalActivityData E i d t (gc\<lparr>listeners := l\<rparr>) w
     = with_listeners l (downloadOriginalActivityData E i d t gc w)"
  unfolding downloadOriginalActivityData_def Let_def url_listeners
  by (intro frame_intros sum_case_frame option_case_frame) (simp_all add: frame)

lemma uploadActivity_frame [frame]:
  "uploadActivity E f t (gc\<lparr>listeners := l\<rparr>) w = with_listeners l (uploadActivity E f t gc w)"
  unfolding uploadActivity_def Let_def
  by (intro frame_intros) (simp_all add: frame)

lemma getUploadActivityDetails_frame [frame]:
  "getUploadActivityDetails E a b (gc\<lparr>listeners := l\<rparr>) w = with_listeners l (getUploadActivityDetails E a b gc w)"
  unfolding getUploadActivityDetails_def
  by ((intro frame_intros)?) (simp_all add: frame)

lemma deleteActivity_frame [frame]:
  "deleteActivity E i (gc\<lparr>listeners := l\<rparr>) w = with_listeners l (deleteActivity E i gc w)"
  unfolding deleteActivity_def
  by ((intro frame_intros)?) (simp_all add: frame)

lemma getWorkouts_frame [frame]:
  "getWorkouts E a b (gc\<lparr>listeners := l\<rparr>) w = with_listeners l (getWorkouts E a b gc w)"
  unfolding getWorkouts_def
  by ((intro frame_intros)?) (simp_all add: frame)

lemma getWorkoutDetail_frame [frame]:
  "getWorkoutDetail E a (gc\<lparr>listeners := l\<rparr>) w = with_listeners l (getWorkoutDetail E a gc w)"
  unfolding getWorkoutDetail_def
  by ((intro frame_intros)?) (simp_all add: frame)

lemma post_new_workout_frame [frame]:
  "post_new_workout E v (gc\<lparr>listeners := l\<rparr>) w = with_listeners l (post_new_workout E v gc w)"
  unfolding post_new_workout_def
  by ((intro frame_intros)?) (simp_all add: frame)

lemma addWorkout_frame [frame]:
  "addWorkout E k (gc\<lparr>listeners := l\<rparr>) w = with_listeners l (addWorkout E k gc w)"
proof (cases k)
  case (Running r)
  show ?thesis unfolding addWorkout_def Running workout.case
    by (intro frame_intros) (simp_all add: frame)
next
  case (Detail v)
  show ?thesis unfolding addWorkout_def Detail workout.case
    by (intro frame_intros) (simp_all add: frame)
qed

lemma addRunningWorkout_frame [frame]:
  "addRunningWorkout E a b c (gc\<lparr>listeners := l\<rparr>) w = with_listeners l (addRunningWorkout E a b c gc w)"
  unfolding addRunningWorkout_def
  by ((intro frame_intros)?) (simp_all add: frame)

lemma deleteWorkout_frame [frame]:
  "deleteWorkout E a (gc\<lparr>listeners := l\<rparr>) w = with_listeners l (deleteWorkout E a gc w)"
  unfolding deleteWorkout_def
  by ((intro frame_intros)?) (simp_all add: frame)

lemma addActivity_frame [frame]:
  "addActivity E a (gc\<lparr>listeners := l\<rparr>) w = with_listeners l (addActivity E a gc w)"
  unfolding addActivity_def
  by ((intro frame_intros)?) (simp_all add: frame)

lemma getSteps_frame [frame]:
  "getSteps E d (gc\<lparr>listeners := l\<rparr>) w = with_listeners l (getSteps E d gc w)"
  unfolding getSteps_def
  by ((intro frame_intros)?) (simp_all add: frame)

lemma getSleepData_frame [frame]:
  "getSleepData E d (gc\<lparr>listeners := l\<rparr>) w = with_listeners l (getSleepData E d gc w)"
  unfolding getSleepData_def
  by ((intro frame_intros)?) (simp_all add: frame)

lemma getSleepDuration_frame [frame]:
  "getSleepDuration E d (gc\<lparr>listeners := l\<rparr>) w = with_listeners l (getSleepDuration E d gc w)"
  unfolding getSleepDuration_def
  by ((intro frame_intros)?) (simp_all add: frame)

lemma getDailyWeightData_frame [frame]:
  "getDailyWeightData E d (gc\<lparr>listeners := l\<rparr>) w = with_listeners l (getDailyWeightData E d gc w)"
  unfolding getDailyWeightData_def
  by ((intro frame_intros)?) (simp_all add: frame)

lemma getDailyWeightInPounds_frame [frame]:
  "getDailyWeightInPounds E d (gc\<lparr>listeners := l\<rparr>) w
     = with_listeners l (getDailyWeightInPounds E d gc w)"
  unfolding getDailyWeightInPounds_def
proof (rule and_then_frame)
  show "getDailyWeightData E (Some (date_or_now E d)) (gc\<lparr>listeners := l\<rparr>) w
          = with_listeners l (getDailyWeightData E (Some (date_or_now E d)) gc w)"
    by (rule getDailyWeightData_frame)
qed (simp add: with_listeners_def throw_def split: jsval.splits)

lemma getDailyHydration_frame [frame]:
  "getDailyHydration E d (gc\<lparr>listeners := l\<rparr>) w = with_listeners l (getDailyHydration E d gc w)"
  unfolding getDailyHydration_def
  by ((intro frame_intros)?) (simp_all add: frame)

lemma updateWeight_frame [frame]:
  "updateWeight E d a b (gc\<lparr>listeners := l\<rparr>) w = with_listeners l (updateWeight E d a b gc w)"
  unfolding updateWeight_def
  by ((intro frame_intros)?) (simp_all add: frame)

lemma updateHydrationLogOunces_frame [frame]:
  "updateHydrationLogOunces E d a (gc\<lparr>listeners := l\<rparr>) w = with_listeners l (updateHydrationLogOunces E d a gc w)"
  unfolding updateHydrationLogOunces_def
  by ((intro frame_intros)?) (simp_all add: frame)

lemma getGolfSummary_frame [frame]:
  "getGolfSummary E (gc\<lparr>listeners := l\<rparr>) w = with_listeners l (getGolfSummary E gc w)"
  unfolding getGolfSummary_def
  by ((intro frame_intros)?) (simp_all add: frame)

lemma getGolfScorecard_frame [frame]:
  "getGolfScorecard E a (gc\<lparr>listeners := l\<rparr>) w = with_listeners l (getGolfScorecard E a gc w)"
  unfolding getGolfScorecard_def
  by ((intro frame_intros)?) (simp_all add: frame)

lemma getHeartRate_frame [frame]:
  "getHeartRate E d (gc\<lparr>listeners := l\<rparr>) w = with_listeners l (getHeartRate E d gc w)"
  unfolding getHeartRate_def
  by ((intro frame_intros)?) (simp_all add: frame)

lemma get_frame [frame]:
  "get E a b (gc\<lparr>listeners := l\<rparr>) w = with_listeners l (get E a b gc w)"
  unfolding get_def
  by ((intro frame_intros)?) (simp_all add: frame)

lemma post_frame [frame]:
  "post E a b (gc\<lparr>listeners := l\<rparr>) w = with_listeners l (post E a b gc w)"
  unfolding post_def
  by ((intro frame_intros)?) (simp_all add: frame)

lemma put_frame [frame]:
  "put E a b (gc\<lparr>listeners := l\<rparr>) w = with_listeners l (put E a b gc w)"
  unfolding put_def
  by ((intro frame_intros)?) (simp_all add: frame)

lemma login_frame [frame]:
  "login E a b (gc\<lparr>listeners := l\<rparr>) w = with_listeners l (login E a b gc w)"
  by (simp add: login_def Let_def client_request_def lift_def throw_def with_listeners_def and_then_def
      split: option.splits prod.splits sum.splits)

lemma traced_exportTokenToFile [traces]: "traced w (exportTokenToFile E d gc w)"
  by (simp add: exportTokenToFile_def traced_def throw_def split: sum.splits)

lemma traced_loadTokenByFile [traces]: "traced w (loadTokenByFile E d gc w)"
  by (simp add: loadTokenByFile_def traced_def throw_def Let_def split: sum.splits)

lemma traced_getUserSettings [traces]: "traced w (getUserSettings E gc w)"
  unfolding getUserSettings_def
  by ((intro traced_intros)?) (simp_all add: traces)

lemma traced_getUserProfile [traces]: "traced w (getUserProfile E gc w)"
  unfolding getUserProfile_def
  by ((intro traced_intros)?) (simp_all add: traces)

lemma traced_getActivities [traces]: "traced w (getActivities E a b c d gc w)"
  unfolding getActivities_def
  by ((intro traced_intros)?) (simp_all add: traces)

lemma traced_getActivity [traces]: "traced w (getActivity E i gc w)"
  unfolding getActivity_def
  by ((intro traced_intros)?) (simp_all add: traces)

lemma traced_countActivities [traces]: "traced w (countActivities E gc w)"
  unfolding countActivities_def
  by ((intro traced_intros)?) (simp_all add: traces)

lemma traced_getGears [traces]: "traced w (getGears E a gc w)"
  unfolding getGears_def
  by ((intro traced_intros)?) (simp_all add: traces)

lemma traced_getActivityGear [traces]: "traced w (getActivityGear E a gc w)"
  unfolding getActivityGear_def
  by ((intro traced_intros)?) (simp_all add: traces)

lemma traced_linkActivityGear [traces]: "traced w (linkActivityGear E a b gc w)"
  unfolding linkActivityGear_def
  by ((intro traced_intros)?) (simp_all add: traces)

lemma traced_unlinkActivityGear [traces]: "traced w (unlinkActivityGear E a b gc w)"
  unfolding unlinkActivityGear_def
  by ((intro traced_intros)?) (simp_all add: traces)

lemma traced_downloadOriginalActivityData [traces]:
  "traced w (downloadOriginalActivityData E i d t gc w)"
  unfolding downloadOriginalActivityData_def Let_def
  by (intro traced_intros traced_sum_case traced_option_case)
     (simp_all add: traces)

lemma traced_uploadActivity [traces]: "traced w (uploadActivity E f t gc w)"
  unfolding uploadActivity_def Let_def
  by (intro traced_intros) (simp_all add: traces)

lemma traced_getUploadActivityDetails [traces]: "traced w (getUploadActivityDetails E a b gc w)"
  unfolding getUploadActivityDetails_def
  by ((intro traced_intros)?) (simp_all add: traces)

lemma traced_deleteActivity [traces]: "traced w (deleteActivity E i gc w)"
  unfolding deleteActivity_def
  by ((intro traced_intros)?) (simp_all add: traces)

lemma traced_getWorkouts [traces]: "traced w (getWorkouts E a b gc w)"
  unfolding getWorkouts_def
  by ((intro traced_intros)?) (simp_all add: traces)

lemma traced_getWorkoutDetail [traces]: "traced w (getWorkoutDetail E a gc w)"
  unfolding getWorkoutDetail_def
  by ((intro traced_intros)?) (simp_all add: traces)

lemma traced_post_new_workout [traces]: "traced w (post_new_workout E v gc w)"
  unfolding post_new_workout_def
  by ((intro traced_intros)?) (simp_all add: traces)

lemma traced_addWorkout [traces]: "traced w (addWorkout E k gc w)"
proof (cases k)
  case (Running r)
  show ?thesis unfolding addWorkout_def Running workout.case
    by (intro traced_intros) (simp_all add: traces)
next
  case (Detail v)
  show ?thesis unfolding addWorkout_def Detail workout.case
    by (intro traced_intros) (simp_all add: traces)
qed

lemma traced_addRunningWorkout [traces]: "traced w (addRunningWorkout E a b c gc w)"
  unfolding addRunningWorkout_def
  by ((intro traced_intros)?) (simp_all add: traces)

lemma traced_deleteWorkout [traces]: "traced w (deleteWorkout E a gc w)"
  unfolding deleteWorkout_def
  by ((intro traced_intros)?) (simp_all add: traces)

lemma traced_addActivity [traces]: "traced w (addActivity E a gc w)"
  unfolding addActivity_def
  by ((intro traced_intros)?) (simp_all add: traces)

lemma traced_getSteps [traces]: "traced w (getSteps E d gc w)"
  unfolding getSteps_def
  by ((intro traced_intros)?) (simp_all add: traces)

lemma traced_getSleepData [traces]: "traced w (getSleepData E d gc w)"
  unfolding getSleepData_def
  by ((intro traced_intros)?) (simp_all add: traces)

lemma traced_getSleepDuration [traces]: "traced w (getSleepDuration E d gc w)"
  unfolding getSleepDuration_def
  by ((intro traced_intros)?) (simp_all add: traces)

lemma traced_getDailyWeightData [traces]: "traced w (getDailyWeightData E d gc w)"
  unfolding getDailyWeightData_def
  by ((intro traced_intros)?) (simp_all add: traces)

lemma traced_getDailyWeightInPounds [traces]: "traced w (getDailyWeightInPounds E d gc w)"
  unfolding getDailyWeightInPounds_def
  by (rule traced_and_then) (simp_all add: traces split: jsval.splits)

lemma traced_getDailyHydration [traces]: "traced w (getDailyHydration E d gc w)"
  unfolding getDailyHydration_def
  by ((intro traced_intros)?) (simp_all add: traces)

lemma traced_updateWeight [traces]: "traced w (updateWeight E d a b gc w)"
  unfolding updateWeight_def
  by ((intro traced_intros)?) (simp_all add: traces)

lemma traced_updateHydrationLogOunces [traces]: "traced w (updateHydrationLogOunces E d a gc w)"
  unfolding updateHydrationLogOunces_def
  by ((intro traced_intros)?) (simp_all add: traces)

lemma traced_getGolfSummary [traces]: "traced w (getGolfSummary E gc w)"
  unfolding getGolfSummary_def
  by ((intro traced_intros)?) (simp_all add: traces)

lemma traced_getGolfScorecard [traces]: "traced w (getGolfScorecard E a gc w)"
  unfolding getGolfScorecard_def
  by ((intro traced_intros)?) (simp_all add: traces)

lemma traced_getHeartRate [traces]: "traced w (getHeartRate E d gc w)"
  unfolding getHeartRate_def
  by ((intro traced_intros)?) (simp_all add: traces)

lemma traced_get [traces]: "traced w (get E a b gc w)"
  unfolding get_def
  by ((intro traced_intros)?) (simp_all add: traces)

lemma traced_post [traces]: "traced w (post E a b gc w)"
  unfolding post_def
  by ((intro traced_intros)?) (simp_all add: traces)

lemma traced_put [traces]: "traced w (put E a b gc w)"
  unfolding put_def
  by ((intro traced_intros)?) (simp_all add: traces)

lemma traced_login [traces]: "traced w (login E a b gc w)"
  unfolding login_def Let_def
  by (intro traced_intros) (simp_all add: traces)

lemma exportToken_listeners [simp]: "exportToken (gc\<lparr>listeners := l\<rparr>) = exportToken gc"
  by (simp add: exportToken_def)

lemma loadToken_listeners [simp]:
  "loadToken t1 t2 (gc\<lparr>listeners := l\<rparr>) = (loadToken t1 t2 gc)\<lparr>listeners := l\<rparr>"
  by (simp add: loadToken_def)


lemma perform_frame:
  "perform E c (gc\<lparr>listeners := l\<rparr>) w = with_listeners l (perform E c gc w)"
  by (cases c) (simp_all add: frame no_value_frame)

lemma perform_traced: "traced w (perform E c gc w)"
  by (cases c) (simp_all add: traces traced_no_value)

lemma getSleepData_error:
  "getSleepData E date gc w = (Inl e, gc', w') \<Longrightarrow>
   \<exists>pre inner. raised w' = raised w @ pre @ [inner, e]
      \<and> e = Error (''Error in getSleepData: '' @ message inner)"
  unfolding getSleepData_def
  by (drule rethrow_wrapped[where w = w]) ((intro traced_intros)?, simp_all add: traces)

lemma getSleepDuration_error:
  "getSleepDuration E date gc w = (Inl e, gc', w') \<Longrightarrow>
   \<exists>pre inner. raised w' = raised w @ pre @ [inner, e]
      \<and> e = Error (''Error in getSleepDuration: '' @ message inner)"
  unfolding getSleepDuration_def
  by (drule rethrow_wrapped[where w = w]) ((intro traced_intros)?, simp_all add: traces)

lemma getDailyWeightData_error:
  "getDailyWeightData E date gc w = (Inl e, gc', w') \<Longrightarrow>
   \<exists>pre inner. raised w' = raised w @ pre @ [inner, e]
      \<and> e = Error (''Error in getDailyWeightData: '' @ message inner)"
  unfolding getDailyWeightData_def
  by (drule rethrow_wrapped[where w = w]) ((intro traced_intros)?, simp_all add: traces)

lemma getDailyHydration_error:
  "getDailyHydration E date gc w = (Inl e, gc', w') \<Longrightarrow>
   \<exists>pre inner. raised w' = raised w @ pre @ [inner, e]
      \<and> e = Error (''Error in getDailyHydration: '' @ message inner)"
  unfolding getDailyHydration_def
  by (drule rethrow_wrapped[where w = w]) ((intro traced_intros)?, simp_all add: traces)

lemma updateWeight_error:
  "updateWeight E day lbs timezone gc w = (Inl e, gc', w') \<Longrightarrow>
   \<exists>pre inner. raised w' = raised w @ pre @ [inner, e]
      \<and> e = Error (''Error in updateWeight: '' @ message inner)"
  unfolding updateWeight_def
  by (drule rethrow_wrapped[where w = w]) ((intro traced_intros)?, simp_all add: traces)

lemma updateHydrationLogOunces_error:
  "updateHydrationLogOunces E day valueInOz gc w = (Inl e, gc', w') \<Longrightarrow>
   \<exists>pre inner. raised w' = raised w @ pre @ [inner, e]
      \<and> e = Error (''Error in updateHydrationLogOunces: '' @ message inner)"
  unfolding updateHydrationLogOunces_def
  by (drule rethrow_wrapped[where w = w]) ((intro traced_intros)?, simp_all add: traces)

lemma getGolfSummary_error:
  "getGolfSummary E gc w = (Inl e, gc', w') \<Longrightarrow>
   \<exists>pre inner. raised w' = raised w @ pre @ [inner, e]
      \<and> e = Error (''Error in getGolfSummary: '' @ message inner)"
  unfolding getGolfSummary_def
  by (drule rethrow_wrapped[where w = w]) ((intro traced_intros)?, simp_all add: traces)

lemma getGolfScorecard_error:
  "getGolfScorecard E scorecardId gc w = (Inl e, gc', w') \<Longrightarrow>
   \<exists>pre inner. raised w' = raised w @ pre @ [inner, e]
      \<and> e = Error (''Error in getGolfScorecard: '' @ message inner)"
  unfolding getGolfScorecard_def
  by (drule rethrow_wrapped[where w = w]) ((intro traced_intros)?, simp_all add: traces)

lemma getHeartRate_error:
  "getHeartRate E date gc w = (Inl e, gc', w') \<Longrightarrow>
   \<exists>pre inner. raised w' = raised w @ pre @ [inner, e]
      \<and> e = Error (''Error in getHeartRate: '' @ message inner)"
  unfolding getHeartRate_def
  by (drule rethrow_wrapped[where w = w]) ((intro traced_intros)?, simp_all add: traces)

lemma with_listeners_object:
  "fst (snd (with_listeners l m)) = (fst (snd m))\<lparr>listeners := l\<rparr>"
  by (cases m) (simp add: with_listeners_def)

text \<open>
  Claim C8. A client object starts with no listeners, no public operation changes the
  listeners, and the outcome of every public operation is the same whatever listeners are
  registered: none is read or invoked.
\<close>

theorem listeners_never_used:
  "(\<forall>gc. new_GarminConnect E cfg given domain = Inr gc \<longrightarrow> listeners gc = Map.empty)
   \<and> listeners (fst (snd (perform E c gc w))) = listeners gc
   \<and> perform E c (gc\<lparr>listeners := l\<rparr>) w =
       (case perform E c gc w of (r, gc', w') \<Rightarrow> (r, gc'\<lparr>listeners := l\<rparr>, w'))"
proof (intro conjI)
  show "\<forall>gc. new_GarminConnect E cfg given domain = Inr gc \<longrightarrow> listeners gc = Map.empty"
    by (auto simp: new_GarminConnect_def Let_def split: option.splits)
  have "perform E c gc w = perform E c (gc\<lparr>listeners := listeners gc\<rparr>) w"
    by simp
  also have "\<dots> = with_listeners (listeners gc) (perform E c gc w)"
    by (rule perform_frame)
  finally have "fst (snd (perform E c gc w))
                  = (fst (snd (perform E c gc w)))\<lparr>listeners := listeners gc\<rparr>"
    using with_listeners_object[where l = "listeners gc" and m = "perform E c gc w"] by simp
  then have "listeners (fst (snd (perform E c gc w)))
                  = listeners ((fst (snd (perform E c gc w)))\<lparr>listeners := listeners gc\<rparr>)"
    by (rule arg_cong)
  then show "listeners (fst (snd (perform E c gc w))) = listeners gc"
    by simp
  show "perform E c (gc\<lparr>listeners := l\<rparr>) w =
       (case perform E c gc w of (r, gc', w') \<Rightarrow> (r, gc'\<lparr>listeners := l\<rparr>, w'))"
    using perform_frame[where gc = gc and l = l and E = E and c = c and w = w]
    by (simp add: with_listeners_def)
qed

theorem listeners_never_used_witness:
  "new_GarminConnect sample_env None (Some \<lparr>username = ''user@example.com'', password = ''secret''\<rparr>) None
     = Inr fresh_client
   \<and> listeners fresh_client = Map.empty
   \<and> listeners (fst (snd (perform sample_env (LoadToken sample_oauth1 sample_oauth2) fresh_client sample_world)))
       = listeners fresh_client
   \<and> perform sample_env GetUserSettings
         (sample_client\<lparr>listeners := [''sessionChange'' \<mapsto> [\<lambda>session. ()]]\<rparr>) sample_world
       = (Inr (JStr ''<gpx></gpx>''),
          sample_client\<lparr>listeners := [''sessionChange'' \<mapsto> [\<lambda>session. ()]]\<rparr>,
          \<lparr>disk = sample_disk,
            calls = [(ClientGet ''https://connectapi.garmin.com/userprofile-service/userprofile/user-settings''
                        JUndefined,
                      Inr (JStr ''<gpx></gpx>''))],
            raised = []\<rparr>)"
proof -
  have c: "new_GarminConnect sample_env None
             (Some \<lparr>username = ''user@example.com'', password = ''secret''\<rparr>) None = Inr fresh_client"
    by (simp add: new_GarminConnect_def sample_env_def fresh_client_def)
  note T = listeners_never_used[of sample_env None
      "Some \<lparr>username = ''user@example.com'', password = ''secret''\<rparr>" None]
  from T[of GetUserSettings sample_client sample_world] c
  have e: "listeners fresh_client = Map.empty"
    by blast
  from T[of "LoadToken sample_oauth1 sample_oauth2" fresh_client sample_world]
  have k: "listeners (fst (snd (perform sample_env (LoadToken sample_oauth1 sample_oauth2) fresh_client sample_world)))
       = listeners fresh_client"
    by blast
  have p: "perform sample_env GetUserSettings sample_client sample_world
       = (Inr (JStr ''<gpx></gpx>''), sample_client,
          \<lparr>disk = sample_disk,
            calls = [(ClientGet ''https://connectapi.garmin.com/userprofile-service/userprofile/user-settings''
                        JUndefined,
                      Inr (JStr ''<gpx></gpx>''))],
            raised = []\<rparr>)"
    by (simp add: getUserSettings_def transfer_defs sample_defs)
  from T[of GetUserSettings sample_client sample_world "[''sessionChange'' \<mapsto> [\<lambda>session. ()]]"]
  have "perform sample_env GetUserSettings
         (sample_client\<lparr>listeners := [''sessionChange'' \<mapsto> [\<lambda>session. ()]]\<rparr>) sample_world
       = (case perform sample_env GetUserSettings sample_client sample_world of
            (r, gc', w') \<Rightarrow> (r, gc'\<lparr>listeners := [''sessionChange'' \<mapsto> [\<lambda>session. ()]]\<rparr>, w'))"
    by blast
  then have q: "perform sample_env GetUserSettings
         (sample_client\<lparr>listeners := [''sessionChange'' \<mapsto> [\<lambda>session. ()]]\<rparr>) sample_world
       = (Inr (JStr ''<gpx></gpx>''),
          sample_client\<lparr>listeners := [''sessionChange'' \<mapsto> [\<lambda>session. ()]]\<rparr>,
          \<lparr>disk = sample_disk,
            calls = [(ClientGet ''https://connectapi.garmin.com/userprofile-service/userprofile/user-settings''
                        JUndefined,
                      Inr (JStr ''<gpx></gpx>''))],
            raised = []\<rparr>)"
    unfolding p by simp
  from c e k q show ?thesis by blast
qed

text \<open>
  Claim C4, as corrected. Each of the nine operations whose body stands in a \<open>try\<close>
  block throws only errors whose message is \<open>Error in\<close>, its own name, a colon and the
  message of the error its handler caught, the error thrown just before. \<open>getActivities\<close>
  has no such block and surfaces exactly the outcome of its call to the HTTP client. No
  public operation swallows an error: it returns a result only when no error was thrown
  during it, and when it fails the error it surfaces is the last error thrown.
\<close>

theorem errors_wrapped_or_passed_on:
  "(\<forall>e gc' w'. perform E (GetSleepData date) gc w = (Inl e, gc', w') \<longrightarrow>
      (\<exists>pre inner. raised w' = raised w @ pre @ [inner, e]
         \<and> e = Error (''Error in getSleepData: '' @ message inner)))
   \<and> (\<forall>e gc' w'. perform E (GetSleepDuration date) gc w = (Inl e, gc', w') \<longrightarrow>
      (\<exists>pre inner. raised w' = raised w @ pre @ [inner, e]
         \<and> e = Error (''Error in getSleepDuration: '' @ message inner)))
   \<and> (\<forall>e gc' w'. perform E (GetDailyWeightData date) gc w = (Inl e, gc', w') \<longrightarrow>
      (\<exists>pre inner. raised w' = raised w @ pre @ [inner, e]
         \<and> e = Error (''Error in getDailyWeightData: '' @ message inner)))
   \<and> (\<forall>e gc' w'. perform E (GetDailyHydration date) gc w = (Inl e, gc', w') \<longrightarrow>
      (\<exists>pre inner. raised w' = raised w @ pre @ [inner, e]
         \<and> e = Error (''Error in getDailyHydration: '' @ message inner)))
   \<and> (\<forall>e gc' w'. perform E (UpdateWeight day lbs timezone) gc w = (Inl e, gc', w') \<longrightarrow>
      (\<exists>pre inner. raised w' = raised w @ pre @ [inner, e]
         \<and> e = Error (''Error in updateWeight: '' @ message inner)))
   \<and> (\<forall>e gc' w'. perform E (UpdateHydrationLogOunces day valueInOz) gc w = (Inl e, gc', w') \<longrightarrow>
      (\<exists>pre inner. raised w' = raised w @ pre @ [inner, e]
         \<and> e = Error (''Error in updateHydrationLogOunces: '' @ message inner)))
   \<and> (\<forall>e gc' w'. perform E (GetGolfSummary) gc w = (Inl e, gc', w') \<longrightarrow>
      (\<exists>pre inner. raised w' = raised w @ pre @ [inner, e]
         \<and> e = Error (''Error in getGolfSummary: '' @ message inner)))
   \<and> (\<forall>e gc' w'. perform E (GetGolfScorecard scorecardId) gc w = (Inl e, gc', w') \<longrightarrow>
      (\<exists>pre inner. raised w' = raised w @ pre @ [inner, e]
         \<and> e = Error (''Error in getGolfScorecard: '' @ message inner)))
   \<and> (\<forall>e gc' w'. perform E (GetHeartRate date) gc w = (Inl e, gc', w') \<longrightarrow>
      (\<exists>pre inner. raised w' = raised w @ pre @ [inner, e]
         \<and> e = Error (''Error in getHeartRate: '' @ message inner)))
   \<and> fst (perform E (GetActivities start limit activityType subActivityType) gc w) =
       fst (http E w
              (ClientGet (ACTIVITIES (url gc))
                 (params [(''start'', start), (''limit'', limit), (''activityType'', activityType),
                          (''subActivityType'', subActivityType)]))
              (client gc))
   \<and> (\<forall>r gc' w'. perform E c gc w = (r, gc', w') \<longrightarrow>
        (\<exists>new. raised w' = raised w @ new
           \<and> (case r of Inl e \<Rightarrow> new \<noteq> [] \<and> last new = e | Inr v \<Rightarrow> new = [])))"
proof (intro conjI allI impI)
  fix r gc' w'
  assume "perform E c gc w = (r, gc', w')"
  with perform_traced[of w E c gc]
  show "\<exists>new. raised w' = raised w @ new
           \<and> (case r of Inl e \<Rightarrow> new \<noteq> [] \<and> last new = e | Inr v \<Rightarrow> new = [])"
    by (simp add: traced_def)
next
  show "fst (perform E (GetActivities start limit activityType subActivityType) gc w) =
       fst (http E w
              (ClientGet (ACTIVITIES (url gc))
                 (params [(''start'', start), (''limit'', limit), (''activityType'', activityType),
                          (''subActivityType'', subActivityType)]))
              (client gc))"
    by (simp add: getActivities_def client_get_def client_request_def lift_def throw_def
        split: prod.splits sum.splits)
qed (simp_all only: perform.simps getSleepData_error getSleepDuration_error
      getDailyWeightData_error getDailyHydration_error updateWeight_error
      updateHydrationLogOunces_error getGolfSummary_error getGolfScorecard_error getHeartRate_error)

theorem errors_wrapped_or_passed_on_witness:
  "perform failing_env (GetSleepData None) sample_client sample_world
     = (Inl (Error ''Error in getSleepData: Request failed with status code 500''), sample_client,
        \<lparr>disk = sample_disk,
          calls = [(ClientGet ''https://connectapi.garmin.com/sleep-service/sleep/dailySleepData''
                      (JObj [(''params'', JObj [(''date'', JStr ''2023-11-14'')])]),
                    Inl (Error ''Request failed with status code 500''))],
          raised = [Error ''Request failed with status code 500'',
                    Error ''Error in getSleepData: Request failed with status code 500'']\<rparr>)
   \<and> (\<exists>pre inner.
         [Error ''Request failed with status code 500'',
          Error ''Error in getSleepData: Request failed with status code 500'']
           = raised sample_world @ pre
             @ [inner, Error ''Error in getSleepData: Request failed with status code 500'']
         \<and> Error ''Error in getSleepData: Request failed with status code 500''
           = Error (''Error in getSleepData: '' @ message inner))
   \<and> fst (perform failing_env (GetActivities JUndefined JUndefined JUndefined JUndefined)
            sample_client sample_world)
     = Inl (Error ''Request failed with status code 500'')
   \<and> perform sample_env GetUserSettings sample_client sample_world
       = (Inr (JStr ''<gpx></gpx>''), sample_client,
          \<lparr>disk = sample_disk,
            calls = [(ClientGet ''https://connectapi.garmin.com/userprofile-service/userprofile/user-settings''
                        JUndefined,
                      Inr (JStr ''<gpx></gpx>''))],
            raised = []\<rparr>)
   \<and> (\<exists>new. [] = raised sample_world @ new \<and> new = [])"
proof -
  have s: "perform failing_env (GetSleepData None) sample_client sample_world
     = (Inl (Error ''Error in getSleepData: Request failed with status code 500''), sample_client,
        \<lparr>disk = sample_disk,
          calls = [(ClientGet ''https://connectapi.garmin.com/sleep-service/sleep/dailySleepData''
                      (JObj [(''params'', JObj [(''date'', JStr ''2023-11-14'')])]),
                    Inl (Error ''Request failed with status code 500''))],
          raised = [Error ''Request failed with status code 500'',
                    Error ''Error in getSleepData: Request failed with status code 500'']\<rparr>)"
    by (simp add: getSleepData_def rethrow_def date_or_now_def transfer_defs sample_defs)
  have p: "perform sample_env GetUserSettings sample_client sample_world
       = (Inr (JStr ''<gpx></gpx>''), sample_client,
          \<lparr>disk = sample_disk,
            calls = [(ClientGet ''https://connectapi.garmin.com/userprofile-service/userprofile/user-settings''
                        JUndefined,
                      Inr (JStr ''<gpx></gpx>''))],
            raised = []\<rparr>)"
    by (simp add: getUserSettings_def transfer_defs sample_defs)
  note T = errors_wrapped_or_passed_on[where E = failing_env and gc = sample_client
      and w = sample_world and start = JUndefined and limit = JUndefined
      and activityType = JUndefined and subActivityType = JUndefined and date = None]
  from T have "\<forall>e gc' w'. perform failing_env (GetSleepData None) sample_client sample_world
        = (Inl e, gc', w') \<longrightarrow>
      (\<exists>pre inner. raised w' = raised sample_world @ pre @ [inner, e]
         \<and> e = Error (''Error in getSleepData: '' @ message inner))"
    by (rule conjunct1)
  with s have w: "\<exists>pre inner.
         [Error ''Request failed with status code 500'',
          Error ''Error in getSleepData: Request failed with status code 500'']
           = raised sample_world @ pre
             @ [inner, Error ''Error in getSleepData: Request failed with status code 500'']
         \<and> Error ''Error in getSleepData: Request failed with status code 500''
           = Error (''Error in getSleepData: '' @ message inner)"
    by simp
  have "fst (perform failing_env (GetActivities JUndefined JUndefined JUndefined JUndefined)
            sample_client sample_world)
     = fst (http failing_env sample_world
              (ClientGet (ACTIVITIES (url sample_client))
                 (params [(''start'', JUndefined), (''limit'', JUndefined),
                          (''activityType'', JUndefined), (''subActivityType'', JUndefined)]))
              (client sample_client))"
    using T by blast
  then have a: "fst (perform failing_env (GetActivities JUndefined JUndefined JUndefined JUndefined)
            sample_client sample_world)
     = Inl (Error ''Request failed with status code 500'')"
    by (simp add: failing_env_def failing_http_def sample_env_def)
  note U = errors_wrapped_or_passed_on[where E = sample_env and gc = sample_client
      and w = sample_world and c = GetUserSettings]
  from U have "\<forall>r gc' w'. perform sample_env GetUserSettings sample_client sample_world = (r, gc', w') \<longrightarrow>
        (\<exists>new. raised w' = raised sample_world @ new
           \<and> (case r of Inl e \<Rightarrow> new \<noteq> [] \<and> last new = e | Inr v \<Rightarrow> new = []))"
    by blast
  with p have n: "\<exists>new. [] = raised sample_world @ new \<and> new = []"
    by simp
  from s w a p n show ?thesis by blast
qed

text \<open>
  When the HTTP client fails, \<open>getActivities\<close> surfaces the client's error as it is: its
  message names no operation.
\<close>

theorem getActivities_unwrapped_counterexample:
  "perform failing_env (GetActivities JUndefined JUndefined JUndefined JUndefined)
     sample_client sample_world
   = (Inl (Error ''Request failed with status code 500''), sample_client,
      \<lparr>disk = sample_disk,
        calls = [(ClientGet
                    ''https://connectapi.garmin.com/activitylist-service/activities/search/activities''
                    (JObj [(''params'',
                            JObj [(''start'', JUndefined), (''limit'', JUndefined),
                                  (''activityType'', JUndefined), (''subActivityType'', JUndefined)])]),
                  Inl (Error ''Request failed with status code 500''))],
        raised = [Error ''Request failed with status code 500'']\<rparr>)
   \<and> message (Error ''Request failed with status code 500'') = ''Request failed with status code 500''"
  by (simp add: getActivities_def transfer_defs sample_defs)

section \<open>The sample of JSON reads back what it writes\<close>

text \<open>
  The sample of \<open>JSON\<close> used in the examples above reads every plain value back from the
  text it writes for it: the tokens of the examples are no special case.
\<close>

lemma read_string_quote:
  "read_string (concat (map escape_char s) @ CHR 0x22 # r) = Some (s, r)"
  by (induction s) (simp_all add: escape_char_def)

lemma digit_char_digit: "0 \<le> d \<Longrightarrow> d < 10 \<Longrightarrow> is_digit (digit_char d) \<and> digit_value (digit_char d) = d"
proof -
  assume "0 \<le> d" "d < 10"
  then have "d = 0 \<or> d = 1 \<or> d = 2 \<or> d = 3 \<or> d = 4 \<or> d = 5 \<or> d = 6 \<or> d = 7 \<or> d = 8 \<or> d = 9"
    by arith
  then show ?thesis
    by (elim disjE) (simp_all add: digit_char_def is_digit_def digit_value_def)
qed

lemma digit_char_zero: "0 \<le> d \<Longrightarrow> d < 10 \<Longrightarrow> (digit_char d = CHR ''0'') = (d = 0)"
proof -
  assume "0 \<le> d" "d < 10"
  then have "d = 0 \<or> d = 1 \<or> d = 2 \<or> d = 3 \<or> d = 4 \<or> d = 5 \<or> d = 6 \<or> d = 7 \<or> d = 8 \<or> d = 9"
    by arith
  then show ?thesis
    by (elim disjE) (simp_all add: digit_char_def)
qed

declare digits.simps [simp del]

lemma digits_facts:
  "0 \<le> n \<Longrightarrow> digits n \<noteq> [] \<and> (\<forall>c\<in>set (digits n). is_digit c)
     \<and> foldl (\<lambda>a c. 10 * a + digit_value c) 0 (digits n) = n
     \<and> ((hd (digits n) = CHR ''0'') = (n = 0))
     \<and> (1 < length (digits n)) = (10 \<le> n)"
proof (induction n rule: digits.induct)
  case (1 n)
  show ?case
  proof (cases "n < 10")
    case True
    with 1(2) show ?thesis
      by (subst (1 2 3 4 5) digits.simps) (simp add: digit_char_digit digit_char_zero)
  next
    case False
    then have p: "0 \<le> n div 10" "0 < n div 10" "0 \<le> n mod 10" "n mod 10 < 10" by simp_all
    note IH = 1(1)[OF False p(1)]
    from False IH p show ?thesis
      by (subst (1 2 3 4 5) digits.simps) (auto simp: digit_char_digit)
  qed
qed

lemma is_digit_sep: "sep r \<Longrightarrow> r \<noteq> [] \<Longrightarrow> \<not> is_digit (hd r) \<and> hd r \<notin> set ''.eE''"
  by (auto simp: sep_def is_digit_def)

lemma read_nat_digits:
  assumes "0 \<le> n" and "sep r"
  shows "read_nat (digits n @ r) = Some (n, r)"
proof -
  note f = digits_facts[OF assms(1)]
  have t: "takeWhile is_digit (digits n @ r) = digits n"
  proof (cases r)
    case Nil
    with f show ?thesis by simp
  next
    case (Cons c cs)
    with is_digit_sep[OF assms(2)] have "\<not> is_digit c" by simp
    with f Cons show ?thesis by (simp add: takeWhile_append2)
  qed
  have d: "dropWhile is_digit (digits n @ r) = r"
  proof (cases r)
    case Nil
    with f show ?thesis by simp
  next
    case (Cons c cs)
    with is_digit_sep[OF assms(2)] have "\<not> is_digit c" by simp
    with f Cons show ?thesis by (simp add: dropWhile_append2)
  qed
  have z: "\<not> (length (digits n) > 1 \<and> hd (digits n) = CHR ''0'')"
    using f by auto
  have e: "\<not> (r \<noteq> [] \<and> hd r \<in> set ''.eE'')"
    using is_digit_sep[OF assms(2)] by blast
  show ?thesis
    unfolding read_nat_def Let_def t d using f z e by simp
qed

lemma read_value_null: "read_value (Suc k) (''null'' @ r) = Some (JNull, r)"
  by simp

lemma read_value_true: "read_value (Suc k) (''true'' @ r) = Some (JBool True, r)"
  by simp

lemma read_value_false: "read_value (Suc k) (''false'' @ r) = Some (JBool False, r)"
  by simp

lemma read_value_str: "read_value (Suc k) (quote s @ r) = Some (JStr s, r)"
  by (simp add: quote_def read_string_quote)

lemma read_value_arr:
  "read_value (Suc k) (CHR ''['' # s) =
     (if take 1 s = '']'' then Some (JArr [], drop 1 s)
      else case read_elements k s of None \<Rightarrow> None | Some (xs, r) \<Rightarrow> Some (JArr xs, r))"
  by simp

lemma read_value_obj:
  "read_value (Suc k) (CHR ''{'' # s) =
     (if take 1 s = ''}'' then Some (JObj [], drop 1 s)
      else case read_members k s of None \<Rightarrow> None | Some (kvs, r) \<Rightarrow> Some (JObj kvs, r))"
  by simp

lemma read_value_digit:
  "is_digit c \<Longrightarrow> read_value (Suc k) (c # s) =
     (case read_nat (c # s) of None \<Rightarrow> None | Some (n, r) \<Rightarrow> Some (JNum n, r))"
  by (auto simp: is_digit_def)

lemma read_value_num:
  assumes "sep r"
  shows "read_value (Suc k) (decimal n @ r) = Some (JNum n, r)"
proof (cases "n < 0")
  case True
  then have "0 \<le> - n" by simp
  from read_nat_digits[OF this assms] True show ?thesis
    by (simp add: decimal_def)
next
  case False
  then have n: "0 \<le> n" by simp
  note f = digits_facts[OF n]
  then obtain c cs where d: "digits n = c # cs" and c: "is_digit c"
    by (cases "digits n") auto
  have "read_value (Suc k) (c # (cs @ r)) =
     (case read_nat (c # (cs @ r)) of None \<Rightarrow> None | Some (n, r) \<Rightarrow> Some (JNum n, r))"
    using c by (rule read_value_digit)
  moreover have "read_nat (c # (cs @ r)) = Some (n, r)"
    using read_nat_digits[OF n assms] d by simp
  ultimately show ?thesis using False d by (simp add: decimal_def)
qed

lemma decimal_start: "decimal n \<noteq> [] \<and> hd (decimal n) \<noteq> CHR '']''"
proof (cases "n < 0")
  case True
  then show ?thesis by (simp add: decimal_def)
next
  case False
  then have n: "0 \<le> n" by simp
  from digits_facts[OF n] have "digits n \<noteq> []" "is_digit (hd (digits n))"
    by simp_all
  then show ?thesis using False by (auto simp: decimal_def is_digit_def)
qed

lemma json_text_start: "plain v \<Longrightarrow> json_text v \<noteq> [] \<and> hd (json_text v) \<noteq> CHR '']''"
  by (cases v) (simp_all add: decimal_start quote_def)

lemma plain_defined: "plain v \<Longrightarrow> v \<noteq> JUndefined"
  by auto

lemma quote_start [simp]: "quote k \<noteq> []" "hd (quote k) = CHR 0x22" "take 1 (quote k @ r) = [CHR 0x22]"
  "drop 1 (quote k @ r) = concat (map escape_char k) @ CHR 0x22 # r"
  by (simp_all add: quote_def)

lemma json_members_empty: "plain_members kvs \<Longrightarrow> (json_members kvs = []) = (kvs = [])"
proof (cases kvs)
  case Nil
  then show ?thesis by simp
next
  case (Cons kv rest)
  assume "plain_members kvs"
  with Cons have "plain (snd kv)" by (cases kv) simp
  then have "snd kv \<noteq> JUndefined" by (rule plain_defined)
  with Cons show ?thesis by (cases kv) simp
qed

lemma json_members_plain:
  assumes "plain_members ((k, v) # kvs)"
  shows "json_members ((k, v) # kvs) =
     quote k @ '':'' @ json_text v @ (if kvs = [] then [] else '','' @ json_members kvs)"
proof -
  from assms have "v \<noteq> JUndefined" "plain_members kvs"
    by (auto dest: plain_defined)
  then show ?thesis by (simp add: json_members_empty)
qed

lemma add_member_new: "map_of kvs k = None \<Longrightarrow> add_member k v kvs = (k, v) # kvs"
  by (simp add: add_member_def)

lemma json_elements_start:
  "plain_elements xs \<Longrightarrow> xs \<noteq> [] \<Longrightarrow> json_elements xs \<noteq> [] \<and> hd (json_elements xs) \<noteq> CHR '']''"
proof (cases xs)
  case Nil
  assume "xs \<noteq> []"
  with Nil show ?thesis by simp
next
  case (Cons x ys)
  assume "plain_elements xs"
  with Cons have "plain x" by simp
  from json_text_start[OF this] Cons show ?thesis
    by (cases ys) simp_all
qed

lemma sep_intros [simp]: "sep []" "sep (CHR '','' # r)" "sep (CHR '']'' # r)" "sep (CHR ''}'' # r)"
  by (simp_all add: sep_def)

declare read_value.simps [simp del] read_elements.simps [simp del] read_members.simps [simp del]

lemma read_back:
  "plain v \<Longrightarrow> length (json_text v) \<le> k \<Longrightarrow> sep r \<Longrightarrow>
     read_value k (json_text v @ r) = Some (v, r)"
  "plain_elements xs \<Longrightarrow> xs \<noteq> [] \<Longrightarrow> Suc (length (json_elements xs)) \<le> k \<Longrightarrow>
     read_elements k (json_elements xs @ CHR '']'' # r) = Some (xs, r)"
  "plain_members kvs \<Longrightarrow> kvs \<noteq> [] \<Longrightarrow> Suc (length (json_members kvs)) \<le> k \<Longrightarrow>
     read_members k (json_members kvs @ CHR ''}'' # r) = Some (kvs, r)"
proof (induction v and xs and kvs arbitrary: k r and k r and k r
    rule: json_text_json_elements_json_members.induct)
  case 1
  then show ?case by simp
next
  case 2
  then obtain j where "k = Suc j" by (cases k) auto
  then show ?case using read_value_null[of j r] by simp
next
  case (3 b)
  then obtain j where "k = Suc j" by (cases k; cases b) auto
  then show ?case using read_value_true[of j r] read_value_false[of j r] by (cases b) simp_all
next
  case (4 n)
  from decimal_start[of n] 4(2) obtain j where "k = Suc j" by (cases k) auto
  then show ?case using read_value_num[OF 4(3), of j n] by simp
next
  case (5 s)
  then obtain j where "k = Suc j" by (cases k) (auto simp: quote_def)
  then show ?case using read_value_str[of j s r] by simp
next
  case 6
  then show ?case by simp
next
  case (7 xs)
  then obtain j where k: "k = Suc j" by (cases k) auto
  show ?case
  proof (cases "xs = []")
    case True
    then show ?thesis unfolding k by (simp add: read_value_arr)
  next
    case False
    from 7(2) have p: "plain_elements xs" by simp
    from json_elements_start[OF p False] have s: "take 1 (json_elements xs @ CHR '']'' # r) \<noteq> '']''"
      by (cases "json_elements xs") auto
    from 7(3) k have "Suc (length (json_elements xs)) \<le> j" by simp
    from 7(1)[OF p False this] have "read_elements j (json_elements xs @ CHR '']'' # r) = Some (xs, r)" .
    with s show ?thesis unfolding k by (simp add: read_value_arr)
  qed
next
  case (8 kvs)
  then obtain j where k: "k = Suc j" by (cases k) auto
  show ?case
  proof (cases "kvs = []")
    case True
    then show ?thesis unfolding k by (simp add: read_value_obj)
  next
    case False
    from 8(2) have p: "plain_members kvs" by simp
    from False obtain key v rest where c: "kvs = (key, v) # rest" by (cases kvs) auto
    from p c have pm: "plain_members ((key, v) # rest)" by simp
    have "take 1 (json_members kvs @ CHR ''}'' # r) \<noteq> ''}''"
      unfolding c json_members_plain[OF pm] by (simp add: quote_def)
    moreover from 8(3) k have "Suc (length (json_members kvs)) \<le> j" by simp
    from 8(1)[OF p False this] have "read_members j (json_members kvs @ CHR ''}'' # r) = Some (kvs, r)" .
    ultimately show ?thesis unfolding k by (simp add: read_value_obj)
  qed
next
  case 9
  then show ?case by simp
next
  case (10 x)
  then obtain j where k: "k = Suc j" by (cases k) auto
  from 10(2) have p: "plain x" by simp
  from 10(4) k have "length (json_text x) \<le> j" by simp
  from 10(1)[OF p this, of "CHR '']'' # r"]
  have "read_value j (json_text x @ CHR '']'' # r) = Some (x, CHR '']'' # r)" by simp
  then show ?case unfolding k by (simp add: read_elements.simps)
next
  case (11 x y ys)
  then obtain j where k: "k = Suc j" by (cases k) auto
  from 11(3) have p: "plain x" "plain_elements (y # ys)" by simp_all
  from 11(5) k have l: "length (json_text x) \<le> j" "Suc (length (json_elements (y # ys))) \<le> j"
    using json_text_start[OF p(1)] by (simp_all add: Suc_le_eq)
  from 11(1)[OF p(1) l(1), of "CHR '','' # json_elements (y # ys) @ CHR '']'' # r"]
  have a: "read_value j (json_text x @ CHR '','' # json_elements (y # ys) @ CHR '']'' # r)
             = Some (x, CHR '','' # json_elements (y # ys) @ CHR '']'' # r)" by simp
  from 11(2)[OF p(2) _ l(2), of r]
  have b: "read_elements j (json_elements (y # ys) @ CHR '']'' # r) = Some (y # ys, r)" by simp
  show ?case unfolding k using a b by (simp add: read_elements.simps)
next
  case 12
  then show ?case by simp
next
  case (13 key v kvs)
  then obtain j where k: "k = Suc j" by (cases k) auto
  from "13.prems"(1) have p: "plain v" "map_of kvs key = None" "plain_members kvs" by simp_all
  from p(1) have u: "v \<noteq> JUndefined" by (rule plain_defined)
  note m = json_members_plain[OF "13.prems"(1)]
  show ?case
  proof (cases "kvs = []")
    case True
    from "13.prems"(3) k m True have "length (json_text v) \<le> j" by simp
    from "13.IH"(2)[OF u p(1) this, of "CHR ''}'' # r"]
    have "read_value j (json_text v @ CHR ''}'' # r) = Some (v, CHR ''}'' # r)" by simp
    then show ?thesis unfolding k m using True
      by (simp add: read_members.simps read_string_quote quote_def)
  next
    case False
    from "13.prems"(3) k m False have l: "length (json_text v) \<le> j" "Suc (length (json_members kvs)) \<le> j"
      by simp_all
    from "13.IH"(2)[OF u p(1) l(1), of "CHR '','' # json_members kvs @ CHR ''}'' # r"]
    have a: "read_value j (json_text v @ CHR '','' # json_members kvs @ CHR ''}'' # r)
               = Some (v, CHR '','' # json_members kvs @ CHR ''}'' # r)" by simp
    have e: "json_members kvs \<noteq> []" using False p(3) by (simp add: json_members_empty)
    from "13.IH"(3)[OF u p(3) False l(2), of r]
    have b: "read_members j (json_members kvs @ CHR ''}'' # r) = Some (kvs, r)" .
    show ?thesis unfolding k m using False a b p(2)
      by (simp add: read_members.simps read_string_quote add_member_new quote_def)
  qed
qed

lemma json_read_json_text: "plain v \<Longrightarrow> json_read (json_text v) = Inr v"
  using read_back(1)[of v "Suc (length (json_text v))" "[]"]
  by (simp add: json_read_def)

text \<open>
  So, with the sample of \<open>JSON\<close>, a client object whose two tokens are plain and truthy
  is saved and loaded back with the same tokens.
\<close>

lemma sample_save_load:
  assumes "plain (oauth1Token (client gc))" and "plain (oauth2Token (client gc))"
    and "truthy (oauth1Token (client gc))" and "truthy (oauth2Token (client gc))"
    and "exportTokenToFile sample_env dir gc w = (Inr (), gc', w')"
  shows "\<exists>loaded. loadTokenByFile sample_env dir fresh w' = (Inr (), loaded, w')
           \<and> exportToken loaded = exportToken gc"
proof -
  have j: "JSON_parse sample_env (JSON_stringify sample_env (oauth1Token (client gc)))
             = Inr (oauth1Token (client gc))"
    "JSON_parse sample_env (JSON_stringify sample_env (oauth2Token (client gc)))
             = Inr (oauth2Token (client gc))"
    using assms(1,2) by (simp_all add: sample_env_def json_read_json_text)
  note L = load_from_files[OF export_success_disk[OF assms(5) assms(3,4)], of sample_env fresh]
  have "exportToken (loadToken (oauth1Token (client gc)) (oauth2Token (client gc)) fresh)
          = exportToken gc"
    using assms(3,4) by (simp add: exportToken_def loadToken_def)
  with L j show ?thesis by simp
qed

end
